theory Spec2Isabelle
  imports Complex_Main
begin

section \<open>Exceptions and results\<close>

text \<open>
  Python exceptions are values. \<open>RuntimeError n e\<close> is the error raised by the drivers'
  \<open>solve\<close>; it carries the two numbers formatted into its message: the Newton iteration
  count and the last error value. Floating point numbers are idealised as \<open>real\<close>.
\<close>

datatype error =
    AttributeError
  | ValueError
  | IndexError
  | TypeError
  | ZeroDivisionError
  | AssertionError
  | NotImplementedError
  | RuntimeError nat real

definition bind :: "error + 'a \<Rightarrow> ('a \<Rightarrow> error + 'b) \<Rightarrow> error + 'b" where
  "bind m f = (case m of Inl e \<Rightarrow> Inl e | Inr a \<Rightarrow> f a)"

section \<open>The numpy operations used by the solvers\<close>

type_synonym vec = "real list"
type_synonym mask = "bool list"
type_synonym mat = "real list list"

text \<open>\<open>x[a:b]\<close> for non-negative bounds: bounds beyond the end are clipped.\<close>

definition slice :: "nat \<Rightarrow> nat \<Rightarrow> 'a list \<Rightarrow> 'a list" where
  "slice a b xs = drop a (take b xs)"

text \<open>
  \<open>x[a:b] = v\<close>: the value must have the length of the slice, or length one (it is then
  broadcast); anything else is a ValueError.
\<close>

definition setslice :: "nat \<Rightarrow> nat \<Rightarrow> 'a list \<Rightarrow> 'a list \<Rightarrow> error + 'a list" where
  "setslice a b v x =
     (let n = length (slice a b x) in
      if length v = n then Inr (take a x @ v @ drop (a + n) x)
      else if length v = 1 then Inr (take a x @ replicate n (hd v) @ drop (a + n) x)
      else Inl ValueError)"

text \<open>
  Elementwise binary operations of two one-dimensional arrays, with numpy's
  broadcasting of an array of length one.
\<close>

definition broadcast :: "('a \<Rightarrow> 'b \<Rightarrow> 'c) \<Rightarrow> 'a list \<Rightarrow> 'b list \<Rightarrow> error + 'c list" where
  "broadcast f xs ys =
     (if length xs = length ys then Inr (map2 f xs ys)
      else if length xs = 1 then Inr (map (f (hd xs)) ys)
      else if length ys = 1 then Inr (map (\<lambda>x. f x (hd ys)) xs)
      else Inl ValueError)"

definition vadd :: "vec \<Rightarrow> vec \<Rightarrow> error + vec" where
  "vadd = broadcast (+)"

definition vsub :: "vec \<Rightarrow> vec \<Rightarrow> error + vec" where
  "vsub = broadcast (-)"

definition vmul :: "vec \<Rightarrow> vec \<Rightarrow> error + vec" where
  "vmul = broadcast (*)"

definition smul :: "real \<Rightarrow> vec \<Rightarrow> vec" where
  "smul c xs = map (\<lambda>x. c * x) xs"

definition sdiv :: "vec \<Rightarrow> real \<Rightarrow> vec" where
  "sdiv xs c = map (\<lambda>x. x / c) xs"

text \<open>\<open>a <= 0\<close> of an array, \<open>a * b\<close> of two boolean arrays, \<open>~a\<close>.\<close>

definition le_zero :: "vec \<Rightarrow> mask" where
  "le_zero xs = map (\<lambda>x. x \<le> 0) xs"

definition mand :: "mask \<Rightarrow> mask \<Rightarrow> error + mask" where
  "mand = broadcast (\<and>)"

definition mnot :: "mask \<Rightarrow> mask" where
  "mnot m = map Not m"

text \<open>\<open>np.where(m)[0]\<close>: the indices at which the mask holds, in increasing order.\<close>

definition where_ind :: "mask \<Rightarrow> nat list" where
  "where_ind m = filter (\<lambda>i. m ! i) [0..<length m]"

text \<open>\<open>v[m]\<close> for a boolean array \<open>m\<close>: the lengths must agree.\<close>

definition getmask :: "'a list \<Rightarrow> mask \<Rightarrow> error + 'a list" where
  "getmask v m =
     (if length m = length v then Inr (map fst (filter snd (zip v m)))
      else Inl IndexError)"

text \<open>
  \<open>R[off + ind] = vals\<close> for an integer index array: every index must be in range, and the
  values must be as many as the indices (or one, broadcast).
\<close>

fun put :: "nat list \<Rightarrow> 'a list \<Rightarrow> 'a list \<Rightarrow> 'a list" where
  "put (i # ind) (v # vals) r = put ind vals (r[i := v])"
| "put _ _ r = r"

definition setind :: "nat \<Rightarrow> nat list \<Rightarrow> 'a list \<Rightarrow> 'a list \<Rightarrow> error + 'a list" where
  "setind off ind vals r =
     (if \<exists>i \<in> set ind. length r \<le> off + i then Inl IndexError
      else if length vals = length ind then Inr (put (map (\<lambda>i. off + i) ind) vals r)
      else if length vals = 1
        then Inr (put (map (\<lambda>i. off + i) ind) (replicate (length ind) (hd vals)) r)
      else Inl ValueError)"

text \<open>
  \<open>A @ v\<close> for a matrix given by its rows: every row must have the length of \<open>v\<close>.
\<close>

definition matvec :: "mat \<Rightarrow> vec \<Rightarrow> error + vec" where
  "matvec A v =
     (if \<forall>row \<in> set A. length row = length v
      then Inr (map (\<lambda>row. sum_list (map2 (*) row v)) A)
      else Inl ValueError)"

text \<open>
  \<open>np.allclose(a, np.zeros(n))\<close> with the default tolerances: the comparison is
  \<open>|a - b| <= atol + rtol * |b|\<close> with \<open>atol = 1e-8\<close>, after broadcasting.
\<close>

definition allclose_zeros :: "vec \<Rightarrow> nat \<Rightarrow> error + bool" where
  "allclose_zeros a n =
     bind (broadcast (\<lambda>x z. \<bar>x - z\<bar> \<le> 1 / 10 ^ 8 + (1 / 10 ^ 5) * \<bar>z\<bar>) a (replicate n 0))
       (\<lambda>bs. Inr (list_all (\<lambda>b. b) bs))"

text \<open>The default \<open>error_function\<close>, \<open>np.max(np.abs(x))\<close>, which raises on an empty array.\<close>

definition max_abs :: "vec \<Rightarrow> error + real" where
  "max_abs xs = (if xs = [] then Inl ValueError else Inr (Max (set (map abs xs))))"

section \<open>The collaborators of the solvers\<close>

text \<open>
  The \<open>Model\<close> object supplies the physics. Its class is not part of the integrator; the
  solvers only read its dimensions and initial values and call its functions, which are
  taken here as pure functions of their arguments. Matrices are lists of rows.
\<close>

record Model =
  model_t0 :: real
  model_nq :: nat
  model_nu :: nat
  model_nla_g :: nat
  model_nla_gamma :: nat
  model_nla_N :: nat
  model_q0 :: vec
  model_u0 :: vec
  model_la_g0 :: vec
  model_la_gamma0 :: vec
  model_la_N0 :: vec
  model_prox_r_N :: vec
  model_M :: "real \<Rightarrow> vec \<Rightarrow> mat"
  model_h :: "real \<Rightarrow> vec \<Rightarrow> vec \<Rightarrow> vec"
  model_q_dot :: "real \<Rightarrow> vec \<Rightarrow> vec \<Rightarrow> vec"
  model_W_g :: "real \<Rightarrow> vec \<Rightarrow> mat"
  model_W_gamma :: "real \<Rightarrow> vec \<Rightarrow> mat"
  model_W_N :: "real \<Rightarrow> vec \<Rightarrow> mat"
  model_g :: "real \<Rightarrow> vec \<Rightarrow> vec"
  model_g_dot :: "real \<Rightarrow> vec \<Rightarrow> vec \<Rightarrow> vec"
  model_g_ddot :: "real \<Rightarrow> vec \<Rightarrow> vec \<Rightarrow> vec \<Rightarrow> vec"
  model_gamma :: "real \<Rightarrow> vec \<Rightarrow> vec \<Rightarrow> vec"
  model_gamma_dot :: "real \<Rightarrow> vec \<Rightarrow> vec \<Rightarrow> vec \<Rightarrow> vec"
  model_g_N :: "real \<Rightarrow> vec \<Rightarrow> vec"
  model_xi_N :: "real \<Rightarrow> vec \<Rightarrow> vec \<Rightarrow> vec \<Rightarrow> vec"
  model_g_N_ddot :: "real \<Rightarrow> vec \<Rightarrow> vec \<Rightarrow> vec \<Rightarrow> vec"
  model_zeta_g :: "real \<Rightarrow> vec \<Rightarrow> vec \<Rightarrow> vec"
  model_zeta_gamma :: "real \<Rightarrow> vec \<Rightarrow> vec \<Rightarrow> vec"
  model_step_callback :: "real \<Rightarrow> vec \<Rightarrow> vec \<Rightarrow> vec \<times> vec"

text \<open>
  Three routines are called but defined elsewhere: scipy's sparse solve \<open>spsolve(A, b)\<close>
  and block-matrix constructor \<open>bmat(blocks)\<close> (a block may be \<open>None\<close>), and
  \<open>approx_fprime(x, f, eps, method)\<close> of \<open>cardillo.math\<close>, the finite-difference Jacobian of
  \<open>f\<close> at \<open>x\<close>. They are parameters of the development; \<open>approx_fprime\<close> receives the
  function it differentiates, \<open>eps\<close> when the caller passes one, and the method name.
\<close>

record extern =
  spsolve :: "mat \<Rightarrow> vec \<Rightarrow> error + vec"
  bmat :: "mat option list list \<Rightarrow> error + mat"
  approx_fprime :: "vec \<Rightarrow> (vec \<Rightarrow> error + vec) \<Rightarrow> real option \<Rightarrow> string \<Rightarrow> error + mat"

section \<open>GenAlphaFirstOrderVelocityGGLNormalContacts\<close>

text \<open>
  The attribute \<open>t1\<close> holds either the end time or, when \<open>t1 > t0\<close> fails, the exception
  object that the conditional expression constructs without raising it.
\<close>

datatype t1_attr = Time real | ValueError_object

datatype R_gen_attr = R_gen_num | R_gen_analytic

text \<open>
  The solver object. Attributes that the constructor does not create (\<open>nR_smooth\<close> and the
  three index sets, first assigned inside \<open>R\<close>) are optional: reading one that is \<open>None\<close> is
  an AttributeError.
\<close>

record solver =
  model :: Model
  DAE_index :: int
  t0 :: real
  t1 :: t1_attr
  dt :: real
  rho_inf :: real
  alpha_m :: real
  alpha_f :: real
  gamma :: real
  beta :: real
  tol :: real
  max_iter :: int
  error_function :: "vec \<Rightarrow> error + real"
  nq :: nat
  nu :: nat
  nla_g :: nat
  nla_gamma :: nat
  nla_N :: nat
  ny :: nat
  nx :: nat
  tk :: real
  qk :: vec
  uk :: vec
  kappa_gk :: vec
  la_gk :: vec
  La_gk :: vec
  la_gammak :: vec
  kappa_Nk :: vec
  la_Nk :: vec
  La_Nk :: vec
  la_gbark :: vec
  la_Nbark :: vec
  q_dotk :: vec
  u_dotk :: vec
  yk :: vec
  y_dotk :: vec
  vk :: vec
  xk :: vec
  R_gen :: R_gen_attr
  k :: nat
  nR_smooth :: "nat option"
  Ai1 :: "mask option"
  Bi1 :: "mask option"
  Ci1 :: "mask option"

subsection \<open>update\<close>

text \<open>
  \<open>update(y_dotk1, store)\<close>. Every operation that can raise comes before the assignments
  under \<open>if store\<close>, so a failing call leaves the object as it was.
\<close>

definition update :: "solver \<Rightarrow> vec \<Rightarrow> bool \<Rightarrow> error + (solver \<times> vec \<times> vec \<times> vec \<times> vec)" where
  "update s y_dotk1 store =
     bind (vadd (smul (alpha_f s) (y_dotk s)) (smul (1 - alpha_f s) y_dotk1)) (\<lambda>a.
     bind (vsub a (smul (alpha_m s) (vk s))) (\<lambda>b.
     let vk1 = sdiv b (1 - alpha_m s) in
     bind (vadd (smul (1 - gamma s) (vk s)) (smul (gamma s) vk1)) (\<lambda>c.
     bind (vadd (yk s) (smul (dt s) c)) (\<lambda>yk1.
     let s' = (if store
               then s\<lparr>vk := vk1, yk := yk1, y_dotk := y_dotk1,
                      uk := slice (nq s) (nq s + nu s) vk1\<rparr>
               else s)
     in Inr (s', slice 0 (nq s) yk1, slice (nq s) (nq s + nu s) yk1,
             slice 0 (nq s) y_dotk1, slice (nq s) (nq s + nu s) y_dotk1)))))"

subsection \<open>pack and unpack\<close>

definition pack ::
  "solver \<Rightarrow> vec \<Rightarrow> vec \<Rightarrow> vec \<Rightarrow> vec \<Rightarrow> vec \<Rightarrow> vec \<Rightarrow> vec \<Rightarrow> vec \<Rightarrow> vec \<Rightarrow> error + vec" where
  "pack s q_dot u_dot kappa_g La_g la_g la_gamma kappa_N La_N la_N =
     bind (setslice 0 (nq s) q_dot (replicate (nx s) 0)) (\<lambda>x1.
     bind (setslice (nq s) (nq s + nu s) u_dot x1) (\<lambda>x2.
     bind (setslice (nq s + nu s) (nq s + nu s + nla_g s) kappa_g x2) (\<lambda>x3.
     bind (setslice (nq s + nu s + nla_g s) (nq s + nu s + 2 * nla_g s) La_g x3) (\<lambda>x4.
     bind (setslice (nq s + nu s + 2 * nla_g s) (nq s + nu s + 3 * nla_g s) la_g x4) (\<lambda>x5.
     bind (setslice (nq s + nu s + 3 * nla_g s)
                    (nq s + nu s + 3 * nla_g s + nla_gamma s) la_gamma x5) (\<lambda>x6.
     bind (setslice (nq s + nu s + 3 * nla_g s + nla_gamma s)
                    (nq s + nu s + 3 * nla_g s + nla_gamma s + nla_N s) kappa_N x6) (\<lambda>x7.
     bind (setslice (nq s + nu s + 3 * nla_g s + nla_gamma s + nla_N s)
                    (nq s + nu s + 3 * nla_g s + nla_gamma s + 2 * nla_N s) La_N x7) (\<lambda>x8.
     setslice (nq s + nu s + 3 * nla_g s + nla_gamma s + 2 * nla_N s)
              (nq s + nu s + 3 * nla_g s + nla_gamma s + 3 * nla_N s) la_N x8))))))))"

definition unpack ::
  "solver \<Rightarrow> vec \<Rightarrow> vec \<times> vec \<times> vec \<times> vec \<times> vec \<times> vec \<times> vec \<times> vec \<times> vec" where
  "unpack s x =
     (slice 0 (nq s) x,
      slice (nq s) (nq s + nu s) x,
      slice (nq s + nu s) (nq s + nu s + nla_g s) x,
      slice (nq s + nu s + nla_g s) (nq s + nu s + 2 * nla_g s) x,
      slice (nq s + nu s + 2 * nla_g s) (nq s + nu s + 3 * nla_g s) x,
      slice (nq s + nu s + 3 * nla_g s) (nq s + nu s + 3 * nla_g s + nla_gamma s) x,
      slice (nq s + nu s + 3 * nla_g s + nla_gamma s)
            (nq s + nu s + 3 * nla_g s + nla_gamma s + nla_N s) x,
      slice (nq s + nu s + 3 * nla_g s + nla_gamma s + nla_N s)
            (nq s + nu s + 3 * nla_g s + nla_gamma s + 2 * nla_N s) x,
      slice (nq s + nu s + 3 * nla_g s + nla_gamma s + 2 * nla_N s)
            (nq s + nu s + 3 * nla_g s + nla_gamma s + 3 * nla_N s) x)"

subsection \<open>The residual R\<close>

text \<open>
  The local variables of \<open>R\<close> that the residual blocks and the index sets are built from,
  under the names they have in the source.
\<close>

record R_locals =
  qk1 :: vec
  uk1 :: vec
  q_dotk1 :: vec
  u_dotk1 :: vec
  kappa_gk1 :: vec
  La_gk1 :: vec
  la_gk1 :: vec
  la_gammak1 :: vec
  kappa_Nk1 :: vec
  La_Nk1 :: vec
  la_Nk1 :: vec
  la_Nbark1 :: vec
  P_Nk1 :: vec
  kappa_hatNk1 :: vec
  Mk1 :: mat
  W_gk1 :: mat
  W_gammak1 :: mat
  W_Nk1 :: mat
  g_Nk1 :: vec
  xi_Nk1 :: vec
  g_N_ddotk1 :: vec

text \<open>
  The first part of \<open>R\<close>: unpacking \<open>xk1\<close>, the call \<open>update(y_dotk1, store=False)\<close>, the
  generalized-alpha update of the contact multipliers, and the model evaluations.
\<close>

definition R_eval :: "solver \<Rightarrow> real \<Rightarrow> vec \<Rightarrow> error + (solver \<times> R_locals)" where
  "R_eval s tk1' xk1' =
     (let uk' = uk s;
          y_dotk1 = slice 0 (ny s) xk1'
      in case unpack s xk1' of
        (q_dot', u_dot', kappa_g', La_g', la_g', la_gamma', kappa_N', La_N', la_N') \<Rightarrow>
     bind (update s y_dotk1 False) (\<lambda>(s1, qk1', uk1', q_dotk1', u_dotk1').
     bind (vadd (smul (alpha_f s1) (la_Nk s1)) (smul (1 - alpha_f s1) la_N')) (\<lambda>a.
     bind (vsub a (smul (alpha_m s1) (la_Nbark s1))) (\<lambda>b.
     let la_Nbark1' = sdiv b (1 - alpha_m s1) in
     bind (vadd (smul (1 - gamma s1) (la_Nbark s1)) (smul (gamma s1) la_Nbark1')) (\<lambda>c.
     bind (vadd La_N' (smul (dt s1) c)) (\<lambda>P_N'.
     bind (vadd (smul (1 / 2 - beta s1) (la_Nbark s1)) (smul (beta s1) la_Nbark1')) (\<lambda>d.
     bind (vadd kappa_N' (smul ((dt s1)\<^sup>2) d)) (\<lambda>kappa_hat'.
     Inr (s1,
       \<lparr>qk1 = qk1', uk1 = uk1', q_dotk1 = q_dotk1', u_dotk1 = u_dotk1',
        kappa_gk1 = kappa_g', La_gk1 = La_g', la_gk1 = la_g', la_gammak1 = la_gamma',
        kappa_Nk1 = kappa_N', La_Nk1 = La_N', la_Nk1 = la_N',
        la_Nbark1 = la_Nbark1', P_Nk1 = P_N', kappa_hatNk1 = kappa_hat',
        Mk1 = model_M (model s1) tk1' qk1',
        W_gk1 = model_W_g (model s1) tk1' qk1',
        W_gammak1 = model_W_gamma (model s1) tk1' qk1',
        W_Nk1 = model_W_N (model s1) tk1' qk1',
        g_Nk1 = model_g_N (model s1) tk1' qk1',
        xi_Nk1 = model_xi_N (model s1) tk1' qk1' uk' uk1',
        g_N_ddotk1 = model_g_N_ddot (model s1) tk1' qk1' uk1' u_dotk1'\<rparr>)))))))))"

text \<open>
  The smooth blocks: kinematic equation, equations of motion, the bilateral constraints
  on position, velocity and acceleration level, and the constraints on velocity level.
\<close>

definition R_smooth :: "solver \<Rightarrow> real \<Rightarrow> R_locals \<Rightarrow> error + vec" where
  "R_smooth s tk1' l =
     (let n = nq s + nu s in
     bind (vsub (q_dotk1 l) (model_q_dot (model s) tk1' (qk1 l) (uk1 l))) (\<lambda>a1.
     bind (matvec (W_gk1 l) (kappa_gk1 l)) (\<lambda>a2.
     bind (vsub a1 a2) (\<lambda>a3.
     bind (matvec (W_Nk1 l) (kappa_Nk1 l)) (\<lambda>a4.
     bind (vsub a3 a4) (\<lambda>a5.
     bind (setslice 0 (nq s) a5 (replicate (nx s) 0)) (\<lambda>R1.
     bind (matvec (Mk1 l) (u_dotk1 l)) (\<lambda>b1.
     bind (vsub b1 (model_h (model s) tk1' (qk1 l) (uk1 l))) (\<lambda>b2.
     bind (matvec (W_gk1 l) (la_gk1 l)) (\<lambda>b3.
     bind (vsub b2 b3) (\<lambda>b4.
     bind (matvec (W_gammak1 l) (la_gammak1 l)) (\<lambda>b5.
     bind (vsub b4 b5) (\<lambda>b6.
     bind (matvec (W_Nk1 l) (la_Nk1 l)) (\<lambda>b7.
     bind (vsub b6 b7) (\<lambda>b8.
     bind (setslice (nq s) n b8 R1) (\<lambda>R2.
     bind (setslice n (n + nla_g s) (model_g (model s) tk1' (qk1 l)) R2) (\<lambda>R3.
     bind (setslice (n + nla_g s) (n + 2 * nla_g s)
             (model_g_dot (model s) tk1' (qk1 l) (uk1 l)) R3) (\<lambda>R4.
     bind (setslice (n + 2 * nla_g s) (n + 3 * nla_g s)
             (model_g_ddot (model s) tk1' (qk1 l) (uk1 l) (u_dotk1 l)) R4) (\<lambda>R5.
     setslice (n + 3 * nla_g s) (n + 3 * nla_g s + nla_gamma s)
             (model_gamma (model s) tk1' (qk1 l) (uk1 l)) R5)))))))))))))))))))"

text \<open>
  The three index sets, eqn. (130), (133) and (136). Each is stored as soon as it is
  computed, so an exception in a later line leaves the earlier ones assigned.
\<close>

definition update_index_sets :: "solver \<Rightarrow> R_locals \<Rightarrow> solver \<times> (error + unit)" where
  "update_index_sets s l =
     (case bind (vmul (model_prox_r_N (model s)) (g_Nk1 l)) (\<lambda>p. vsub p (kappa_hatNk1 l)) of
        Inl e \<Rightarrow> (s, Inl e)
      | Inr a \<Rightarrow>
     let sA = s\<lparr>Ai1 := Some (le_zero a)\<rparr> in
     (case bind (vmul (model_prox_r_N (model sA)) (xi_Nk1 l)) (\<lambda>p.
           bind (vsub p (P_Nk1 l)) (\<lambda>b. mand (le_zero a) (le_zero b))) of
        Inl e \<Rightarrow> (sA, Inl e)
      | Inr B \<Rightarrow>
     let sB = sA\<lparr>Bi1 := Some B\<rparr> in
     (case bind (vmul (model_prox_r_N (model sB)) (g_N_ddotk1 l)) (\<lambda>p.
           bind (vsub p (la_Nk1 l)) (\<lambda>c. mand B (le_zero c))) of
        Inl e \<Rightarrow> (sB, Inl e)
      | Inr C \<Rightarrow> (sB\<lparr>Ci1 := Some C\<rparr>, Inr ()))))"

text \<open>Reading an attribute that may not exist yet.\<close>

definition getattr :: "'a option \<Rightarrow> error + 'a" where
  "getattr a = (case a of None \<Rightarrow> Inl AttributeError | Some v \<Rightarrow> Inr v)"

text \<open>
  The contact rows: three pairs of index-array assignments into \<open>R\<close>, offset by
  \<open>nR_smooth\<close>, \<open>nR_smooth + nla_N\<close> and \<open>nR_smooth + 2 * nla_N\<close>.
\<close>

definition R_contacts :: "solver \<Rightarrow> R_locals \<Rightarrow> vec \<Rightarrow> error + vec" where
  "R_contacts s l R0 =
     bind (getattr (Ai1 s)) (\<lambda>I_N.
     bind (getmask (g_Nk1 l) I_N) (\<lambda>v1.
     bind (getattr (nR_smooth s)) (\<lambda>nR.
     bind (setind nR (where_ind I_N) v1 R0) (\<lambda>R1.
     bind (getmask (kappa_hatNk1 l) (mnot I_N)) (\<lambda>v2.
     bind (setind nR (where_ind (mnot I_N)) v2 R1) (\<lambda>R2.
     bind (getattr (Bi1 s)) (\<lambda>A_N'.
     bind (mand I_N A_N') (\<lambda>A_N.
     bind (getmask (xi_Nk1 l) A_N) (\<lambda>v3.
     bind (setind (nR + nla_N s) (where_ind A_N) v3 R2) (\<lambda>R3.
     bind (getmask (P_Nk1 l) (mnot A_N)) (\<lambda>v4.
     bind (setind (nR + nla_N s) (where_ind (mnot A_N)) v4 R3) (\<lambda>R4.
     bind (getattr (Ci1 s)) (\<lambda>B_N'.
     bind (mand A_N B_N') (\<lambda>B_N.
     bind (getmask (g_N_ddotk1 l) B_N) (\<lambda>v5.
     bind (setind (nR + 2 * nla_N s) (where_ind B_N) v5 R4) (\<lambda>R5.
     bind (getmask (la_Nk1 l) (mnot B_N)) (\<lambda>v6.
     setind (nR + 2 * nla_N s) (where_ind (mnot B_N)) v6 R5)))))))))))))))))"

text \<open>
  \<open>R(tk1, xk1, update_index_set)\<close>. The object is returned with the result, since the
  assignments to \<open>nR_smooth\<close> and to the index sets persist when a later line raises.
\<close>

definition R :: "solver \<Rightarrow> real \<Rightarrow> vec \<Rightarrow> bool \<Rightarrow> solver \<times> (error + vec)" where
  "R s tk1' xk1' update_index_set =
     (case R_eval s tk1' xk1' of
        Inl e \<Rightarrow> (s, Inl e)
      | Inr (s1, l) \<Rightarrow>
     (case R_smooth s1 tk1' l of
        Inl e \<Rightarrow> (s1, Inl e)
      | Inr R0 \<Rightarrow>
     let s2 = s1\<lparr>nR_smooth := Some (nq s1 + nu s1 + 3 * nla_g s1 + nla_gamma s1)\<rparr> in
     (case (if update_index_set then update_index_sets s2 l else (s2, Inr ())) of
        (s3, Inl e) \<Rightarrow> (s3, Inl e)
      | (s3, Inr u) \<Rightarrow> (s3, R_contacts s3 l R0))))"



subsection \<open>step\<close>




subsection \<open>solve\<close>




subsection \<open>The constructor\<close>

text \<open>The integration time: the conditional expression builds the exception, nothing raises it.\<close>

definition init_t1 :: "real \<Rightarrow> real \<Rightarrow> t1_attr" where
  "init_t1 t0' t1' = (if t1' > t0' then Time t1' else ValueError_object)"

text \<open>The generalized-alpha parameters \<open>(alpha_m, alpha_f, gamma, beta)\<close>, Arnold2007 (24).\<close>

definition init_parameters :: "real \<Rightarrow> error + real \<times> real \<times> real \<times> real" where
  "init_parameters rho_inf' =
     (if rho_inf' + 1 = 0 then Inl ZeroDivisionError
      else
        let alpha_m' = (2 * rho_inf' - 1) / (rho_inf' + 1);
            alpha_f' = rho_inf' / (rho_inf' + 1);
            gamma' = 1 / 2 + alpha_f' - alpha_m';
            beta' = (1 / 4) * (gamma' + 1 / 2)\<^sup>2
        in Inr (alpha_m', alpha_f', gamma', beta'))"

text \<open>
  The assertion \<open>assert np.allclose(v, np.zeros(n))\<close> on the initial conditions.
\<close>

definition assert_allclose :: "vec \<Rightarrow> nat \<Rightarrow> error + unit" where
  "assert_allclose v n =
     bind (allclose_zeros v n) (\<lambda>ok. if ok then Inr () else Inl AssertionError)"

definition init ::
  "extern \<Rightarrow> Model \<Rightarrow> real \<Rightarrow> real \<Rightarrow> real \<Rightarrow> real \<Rightarrow> int \<Rightarrow> (vec \<Rightarrow> error + real) \<Rightarrow> bool \<Rightarrow> int
    \<Rightarrow> error + solver" where
  "init ex mdl t1' dt' rho_inf' tol' max_iter' error_function' numerical_jacobian DAE_index' =
     (if \<not> (DAE_index' \<ge> 1 \<and> DAE_index' \<le> 2) then Inl AssertionError
      else
     bind (init_parameters rho_inf') (\<lambda>(alpha_m', alpha_f', gamma', beta').
     let tk' = model_t0 mdl;
         qk' = model_q0 mdl;
         uk' = model_u0 mdl;
         la_gk' = model_la_g0 mdl;
         la_gammak' = model_la_gamma0 mdl;
         la_Nk' = model_la_N0 mdl;
         q_dotk' = model_q_dot mdl tk' qk' uk'
     in
     bind (matvec (model_W_g mdl tk' qk') la_gk') (\<lambda>a1.
     bind (vadd (model_h mdl tk' qk' uk') a1) (\<lambda>a2.
     bind (matvec (model_W_gamma mdl tk' qk') la_gammak') (\<lambda>a3.
     bind (vadd a2 a3) (\<lambda>a4.
     bind (matvec (model_W_N mdl tk' qk') la_Nk') (\<lambda>a5.
     bind (vadd a4 a5) (\<lambda>a6.
     bind (spsolve ex (model_M mdl tk' qk') a6) (\<lambda>u_dotk'.
     bind (assert_allclose (model_g mdl tk' qk') (model_nla_g mdl)) (\<lambda>_.
     bind (assert_allclose (model_g_dot mdl tk' qk' uk') (model_nla_g mdl)) (\<lambda>_.
     bind (assert_allclose (model_g_ddot mdl tk' qk' uk' u_dotk') (model_nla_g mdl)) (\<lambda>_.
     bind (assert_allclose (model_gamma mdl tk' qk' uk') (model_nla_gamma mdl)) (\<lambda>_.
     bind (assert_allclose (model_gamma_dot mdl tk' qk' uk' u_dotk') (model_nla_gamma mdl)) (\<lambda>_.
     if \<not> list_all (\<lambda>x. x \<ge> 0) (model_g_N mdl tk' qk') then Inl AssertionError
     else
     let s0 =
       \<lparr>model = mdl, DAE_index = DAE_index',
        t0 = model_t0 mdl, t1 = init_t1 (model_t0 mdl) t1', dt = dt',
        rho_inf = rho_inf', alpha_m = alpha_m', alpha_f = alpha_f', gamma = gamma',
        beta = beta', tol = tol', max_iter = max_iter', error_function = error_function',
        nq = model_nq mdl, nu = model_nu mdl, nla_g = model_nla_g mdl,
        nla_gamma = model_nla_gamma mdl, nla_N = model_nla_N mdl,
        ny = model_nq mdl + model_nu mdl,
        nx = model_nq mdl + model_nu mdl + 3 * model_nla_g mdl + model_nla_gamma mdl
               + 3 * model_nla_N mdl,
        tk = tk', qk = qk', uk = uk',
        kappa_gk = replicate (length la_gk') 0, la_gk = la_gk',
        La_gk = replicate (length la_gk') 0, la_gammak = la_gammak',
        kappa_Nk = replicate (length la_Nk') 0, la_Nk = la_Nk',
        La_Nk = replicate (length la_Nk') 0,
        la_gbark = la_Nk', la_Nbark = la_Nk',
        q_dotk = q_dotk', u_dotk = u_dotk',
        yk = qk' @ uk', y_dotk = q_dotk' @ u_dotk', vk = q_dotk' @ u_dotk',
        xk = [], R_gen = R_gen_num, k = 0,
        nR_smooth = None, Ai1 = None, Bi1 = None, Ci1 = None\<rparr>
     in
     bind (pack s0 (q_dotk s0) (u_dotk s0) (kappa_gk s0) (La_gk s0) (la_gk s0)
             (la_gammak s0) (kappa_Nk s0) (La_Nk s0) (la_Nk s0)) (\<lambda>xk'.
     if numerical_jacobian then Inr (s0\<lparr>xk := xk'\<rparr>) else Inl AttributeError)))))))))))))))"

section \<open>GenAlphaFirstOrderVelocityGGL\<close>

record solver_GGL =
  model_GGL :: Model
  t0_GGL :: real
  t1_GGL :: t1_attr
  dt_GGL :: real
  rho_inf_GGL :: real
  alpha_m_GGL :: real
  alpha_f_GGL :: real
  gamma_GGL :: real
  gamma_prime_GGL :: real
  tol_GGL :: real
  max_iter_GGL :: int
  error_function_GGL :: "vec \<Rightarrow> error + real"
  nq_GGL :: nat
  nu_GGL :: nat
  nla_g_GGL :: nat
  nla_gamma_GGL :: nat
  ny_GGL :: nat
  nx_GGL :: nat
  tk_GGL :: real
  qk_GGL :: vec
  uk_GGL :: vec
  la_gk_GGL :: vec
  la_gammak_GGL :: vec
  mu_gk_GGL :: vec
  q_dotk_GGL :: vec
  u_dotk_GGL :: vec
  yk_GGL :: vec
  y_dotk_GGL :: vec
  vk_GGL :: vec
  xk_GGL :: vec
  R_gen_GGL :: R_gen_attr
  use_preconditioning_GGL :: bool

text \<open>
  \<open>update(xk1, store)\<close> of this class takes the whole unknown vector and slices
  \<open>y_dotk1 = xk1[:ny]\<close> itself.
\<close>

definition update_GGL ::
  "solver_GGL \<Rightarrow> vec \<Rightarrow> bool \<Rightarrow> error + (solver_GGL \<times> vec \<times> vec \<times> vec \<times> vec)" where
  "update_GGL s xk1' store =
     (let y_dotk1 = slice 0 (ny_GGL s) xk1' in
     bind (vadd (smul (alpha_f_GGL s) (y_dotk_GGL s)) (smul (1 - alpha_f_GGL s) y_dotk1)) (\<lambda>a.
     bind (vsub a (smul (alpha_m_GGL s) (vk_GGL s))) (\<lambda>b.
     let vk1 = sdiv b (1 - alpha_m_GGL s) in
     bind (vadd (smul (1 - gamma_GGL s) (vk_GGL s)) (smul (gamma_GGL s) vk1)) (\<lambda>c.
     bind (vadd (yk_GGL s) (smul (dt_GGL s) c)) (\<lambda>yk1.
     let s' = (if store
               then s\<lparr>vk_GGL := vk1, yk_GGL := yk1, y_dotk_GGL := y_dotk1\<rparr>
               else s)
     in Inr (s', slice 0 (nq_GGL s) yk1, slice (nq_GGL s) (nq_GGL s + nu_GGL s) yk1,
             slice 0 (nq_GGL s) y_dotk1,
             slice (nq_GGL s) (nq_GGL s + nu_GGL s) y_dotk1))))))"

text \<open>
  The parameters \<open>(alpha_m, alpha_f, gamma, gamma_prime)\<close> of this class, after Harsch2022.
\<close>

definition init_parameters_GGL :: "real \<Rightarrow> real \<Rightarrow> error + real \<times> real \<times> real \<times> real" where
  "init_parameters_GGL dt' rho_inf' =
     (if 2 * (rho_inf' + 1) = 0 then Inl ZeroDivisionError
      else
        let alpha_m' = (3 * rho_inf' - 1) / (2 * (rho_inf' + 1));
            alpha_f' = rho_inf' / (rho_inf' + 1);
            gamma' = 1 / 2 + alpha_f' - alpha_m'
        in if 1 - alpha_m' = 0 then Inl ZeroDivisionError
           else Inr (alpha_m', alpha_f', gamma',
                     dt' * gamma' * (1 - alpha_f') / (1 - alpha_m')))"

definition init_GGL ::
  "extern \<Rightarrow> Model \<Rightarrow> real \<Rightarrow> real \<Rightarrow> real \<Rightarrow> real \<Rightarrow> int \<Rightarrow> (vec \<Rightarrow> error + real) \<Rightarrow> bool
    \<Rightarrow> error + solver_GGL" where
  "init_GGL ex mdl t1' dt' rho_inf' tol' max_iter' error_function' numerical_jacobian =
     bind (init_parameters_GGL dt' rho_inf') (\<lambda>(alpha_m', alpha_f', gamma', gamma_prime').
     let t0' = model_t0 mdl;
         tk' = model_t0 mdl;
         qk' = model_q0 mdl;
         uk' = model_u0 mdl;
         q_dotk' = model_q_dot mdl tk' qk' uk';
         M0 = model_M mdl tk' qk';
         h0 = model_h mdl tk' qk' uk';
         W_g0 = model_W_g mdl tk' qk';
         W_gamma0 = model_W_gamma mdl tk' qk';
         zeta_g0 = model_zeta_g mdl t0' qk' uk';
         zeta_gamma0 = model_zeta_gamma mdl t0' qk' uk'
     in
     bind (bmat ex
             [[Some M0, Some (map (map uminus) W_g0), Some (map (map uminus) W_gamma0)],
              [Some (transpose W_g0), None, None],
              [Some (transpose W_gamma0), None, None]]) (\<lambda>A.
     bind (spsolve ex A (h0 @ map uminus zeta_g0 @ map uminus zeta_gamma0)) (\<lambda>sol.
     let u_dotk' = slice 0 (model_nu mdl) sol;
         la_gk' = slice (model_nu mdl) (model_nu mdl + model_nla_g mdl) sol;
         la_gammak' = drop (model_nu mdl + model_nla_g mdl) sol;
         mu_gk' = replicate (model_nla_g mdl) 0
     in
     bind (assert_allclose (model_g mdl tk' qk') (model_nla_g mdl)) (\<lambda>_.
     bind (assert_allclose (model_g_dot mdl tk' qk' uk') (model_nla_g mdl)) (\<lambda>_.
     bind (assert_allclose (model_g_ddot mdl tk' qk' uk' u_dotk') (model_nla_g mdl)) (\<lambda>_.
     bind (assert_allclose (model_gamma mdl tk' qk' uk') (model_nla_gamma mdl)) (\<lambda>_.
     bind (assert_allclose (model_gamma_dot mdl tk' qk' uk' u_dotk') (model_nla_gamma mdl)) (\<lambda>_.
     Inr \<lparr>model_GGL = mdl, t0_GGL = t0', t1_GGL = init_t1 t0' t1', dt_GGL = dt',
          rho_inf_GGL = rho_inf', alpha_m_GGL = alpha_m', alpha_f_GGL = alpha_f',
          gamma_GGL = gamma', gamma_prime_GGL = gamma_prime',
          tol_GGL = tol', max_iter_GGL = max_iter', error_function_GGL = error_function',
          nq_GGL = model_nq mdl, nu_GGL = model_nu mdl, nla_g_GGL = model_nla_g mdl,
          nla_gamma_GGL = model_nla_gamma mdl,
          ny_GGL = model_nq mdl + model_nu mdl,
          nx_GGL = model_nq mdl + model_nu mdl + 2 * model_nla_g mdl + model_nla_gamma mdl,
          tk_GGL = tk', qk_GGL = qk', uk_GGL = uk',
          la_gk_GGL = la_gk', la_gammak_GGL = la_gammak', mu_gk_GGL = mu_gk',
          q_dotk_GGL = q_dotk', u_dotk_GGL = u_dotk',
          yk_GGL = qk' @ uk', y_dotk_GGL = q_dotk' @ u_dotk', vk_GGL = q_dotk' @ u_dotk',
          xk_GGL = q_dotk' @ u_dotk' @ la_gk' @ la_gammak' @ mu_gk',
          R_gen_GGL = (if numerical_jacobian then R_gen_num else R_gen_analytic),
          use_preconditioning_GGL = False\<rparr>))))))))"

section \<open>GenAlphaFirstOrderVelocity\<close>

text \<open>
  The parameters \<open>(alpha_m, alpha_f, gamma, x_x_dot)\<close> that the constructor of this class
  derives from \<open>rho_inf\<close> and \<open>dt\<close>.
\<close>

definition init_parameters_FirstOrderVelocity ::
  "real \<Rightarrow> real \<Rightarrow> error + real \<times> real \<times> real \<times> real" where
  "init_parameters_FirstOrderVelocity dt' rho_inf' =
     (if 2 * (rho_inf' + 1) = 0 then Inl ZeroDivisionError
      else
        let alpha_m' = (3 * rho_inf' - 1) / (2 * (rho_inf' + 1));
            alpha_f' = rho_inf' / (rho_inf' + 1);
            gamma' = 1 / 2 + alpha_f' - alpha_m'
        in if 1 - alpha_m' = 0 then Inl ZeroDivisionError
           else Inr (alpha_m', alpha_f', gamma',
                     dt' * gamma' * (1 - alpha_f') / (1 - alpha_m')))"

section \<open>fsolve\<close>





section \<open>A test system\<close>

text \<open>
  The free-fall scenario: a point mass at height \<open>1\<close> under gravity \<open>9.81\<close>, at rest, above
  the ground \<open>y \<ge> 0\<close>, with \<open>r_N = 1000\<close>. One coordinate, one velocity, one contact, no
  bilateral constraints. It is the concrete input of the instances below.
\<close>

definition ball :: Model where
  "ball =
     \<lparr>model_t0 = 0, model_nq = 1, model_nu = 1, model_nla_g = 0, model_nla_gamma = 0,
      model_nla_N = 1,
      model_q0 = [1], model_u0 = [0], model_la_g0 = [], model_la_gamma0 = [],
      model_la_N0 = [0], model_prox_r_N = [1000],
      model_M = (\<lambda>t q. [[1]]),
      model_h = (\<lambda>t q u. [- (981 / 100)]),
      model_q_dot = (\<lambda>t q u. u),
      model_W_g = (\<lambda>t q. [[]]),
      model_W_gamma = (\<lambda>t q. [[]]),
      model_W_N = (\<lambda>t q. [[1]]),
      model_g = (\<lambda>t q. []),
      model_g_dot = (\<lambda>t q u. []),
      model_g_ddot = (\<lambda>t q u u_dot. []),
      model_gamma = (\<lambda>t q u. []),
      model_gamma_dot = (\<lambda>t q u u_dot. []),
      model_g_N = (\<lambda>t q. q),
      model_xi_N = (\<lambda>t q u_old u. u),
      model_g_N_ddot = (\<lambda>t q u u_dot. u_dot),
      model_zeta_g = (\<lambda>t q u. []),
      model_zeta_gamma = (\<lambda>t q u. []),
      model_step_callback = (\<lambda>t q u. (q, u))\<rparr>"

text \<open>
  Stand-ins for the library routines, enough for this system: a linear solve for one
  unknown, the block matrix of a system without constraints (its first block), and a
  finite-difference routine that evaluates the function at \<open>x\<close> and then gives up.
\<close>

definition lib :: extern where
  "lib =
     \<lparr>spsolve = (\<lambda>A b. case (A, b) of
                   ([[a]], [y]) \<Rightarrow> if a = 0 then Inl ValueError else Inr [y / a]
                 | _ \<Rightarrow> Inl ValueError),
      bmat = (\<lambda>blocks. case blocks of
                   [Some M, _, _] # _ \<Rightarrow> Inr M
                 | _ \<Rightarrow> Inl ValueError),
      approx_fprime = (\<lambda>x f eps m. bind (f x) (\<lambda>f0. Inl NotImplementedError))\<rparr>"

text \<open>
  The solver object that the constructor builds for this system with \<open>t1 = 1\<close>,
  \<open>dt = 0.01\<close>, \<open>rho_inf = 1\<close>, \<open>tol = 1e-8\<close>, \<open>max_iter = 40\<close> and \<open>DAE_index = 2\<close>.
\<close>

definition ball_solver :: solver where
  "ball_solver =
     \<lparr>model = ball, DAE_index = 2, t0 = 0, t1 = Time 1, dt = 1 / 100, rho_inf = 1,
      alpha_m = 1 / 2, alpha_f = 1 / 2, gamma = 1 / 2, beta = 1 / 4,
      tol = 1 / 10 ^ 8, max_iter = 40, error_function = max_abs,
      nq = 1, nu = 1, nla_g = 0, nla_gamma = 0, nla_N = 1, ny = 2, nx = 5,
      tk = 0, qk = [1], uk = [0],
      kappa_gk = [], la_gk = [], La_gk = [], la_gammak = [],
      kappa_Nk = [0], la_Nk = [0], La_Nk = [0], la_gbark = [0], la_Nbark = [0],
      q_dotk = [0], u_dotk = [- (981 / 100)],
      yk = [1, 0], y_dotk = [0, - (981 / 100)], vk = [0, - (981 / 100)],
      xk = [0, - (981 / 100), 0, 0, 0],
      R_gen = R_gen_num, k = 0,
      nR_smooth = None, Ai1 = None, Bi1 = None, Ci1 = None\<rparr>"

text \<open>The object that the constructor of the second class builds for the same arguments.\<close>

definition ball_solver_GGL :: solver_GGL where
  "ball_solver_GGL =
     \<lparr>model_GGL = ball, t0_GGL = 0, t1_GGL = Time 1, dt_GGL = 1 / 100, rho_inf_GGL = 1,
      alpha_m_GGL = 1 / 2, alpha_f_GGL = 1 / 2, gamma_GGL = 1 / 2, gamma_prime_GGL = 1 / 200,
      tol_GGL = 1 / 10 ^ 8, max_iter_GGL = 40, error_function_GGL = max_abs,
      nq_GGL = 1, nu_GGL = 1, nla_g_GGL = 0, nla_gamma_GGL = 0, ny_GGL = 2, nx_GGL = 2,
      tk_GGL = 0, qk_GGL = [1], uk_GGL = [0],
      la_gk_GGL = [], la_gammak_GGL = [], mu_gk_GGL = [],
      q_dotk_GGL = [0], u_dotk_GGL = [- (981 / 100)],
      yk_GGL = [1, 0], y_dotk_GGL = [0, - (981 / 100)], vk_GGL = [0, - (981 / 100)],
      xk_GGL = [0, - (981 / 100)],
      R_gen_GGL = R_gen_num, use_preconditioning_GGL = False\<rparr>"

text \<open>
  The same object with the ball resting on the ground at the start of the step, and the
  object after one residual evaluation there, all three index sets holding.
\<close>

definition ball_landed :: solver where
  "ball_landed = ball_solver\<lparr>qk := [0], yk := [0, 0]\<rparr>"

definition ball_frozen :: solver where
  "ball_frozen =
     ball_landed\<lparr>nR_smooth := Some 2, Ai1 := Some [True], Bi1 := Some [True],
                  Ci1 := Some [True]\<rparr>"



section \<open>Basic facts\<close>

lemma bind_Inr [simp]: "bind (Inr a) f = f a"
  by (simp add: bind_def)

lemma bind_Inl [simp]: "bind (Inl e) f = Inl e"
  by (simp add: bind_def)

lemma bind_eq_Inr: "bind m f = Inr y \<longleftrightarrow> (\<exists>a. m = Inr a \<and> f a = Inr y)"
  by (cases m) simp_all

lemma length_slice: "length (slice a b x) = min b (length x) - a"
  by (simp add: slice_def)

lemma slice_adjacent:
  "a \<le> b \<Longrightarrow> b \<le> c \<Longrightarrow> slice a b x @ slice b c x = slice a c x"
proof -
  assume ab: "a \<le> b" and bc: "b \<le> c"
  have "take c x = take b x @ drop b (take c x)"
    using bc by (metis append_take_drop_id min.absorb_iff2 take_take min.commute)
  then have "drop a (take c x) = drop a (take b x) @ drop (a - length (take b x)) (drop b (take c x))"
    by (metis drop_append)
  moreover have "drop (a - length (take b x)) (drop b (take c x)) = drop b (take c x)"
    using ab by (cases "b \<le> length x") (simp_all add: min_def)
  ultimately show ?thesis by (simp add: slice_def)
qed

section \<open>Packing\<close>

lemma setslice_fill:
  "length p = a \<Longrightarrow> b = a + length v \<Longrightarrow> length v \<le> m \<Longrightarrow>
   setslice a b v (p @ replicate m z) = Inr ((p @ v) @ replicate (m - length v) z)"
  by (simp add: setslice_def slice_def Let_def min_def)

lemma pack_concat:
  assumes "nx s = nq s + nu s + 3 * nla_g s + nla_gamma s + 3 * nla_N s"
    and "length q_dot = nq s" "length u_dot = nu s"
    and "length kappa_g = nla_g s" "length La_g = nla_g s" "length la_g = nla_g s"
    and "length la_gamma = nla_gamma s"
    and "length kappa_N = nla_N s" "length La_N = nla_N s" "length la_N = nla_N s"
  shows "pack s q_dot u_dot kappa_g La_g la_g la_gamma kappa_N La_N la_N
         = Inr (q_dot @ u_dot @ kappa_g @ La_g @ la_g @ la_gamma @ kappa_N @ La_N @ la_N)"
proof -
  have 1: "setslice 0 (nq s) q_dot (replicate (nx s) 0) = Inr (q_dot @ replicate (nx s - nq s) 0)"
    using setslice_fill [of "[]" 0 "nq s" q_dot "nx s" 0] assms by simp
  show ?thesis
    unfolding pack_def 1 bind_Inr
    using assms
    apply (subst setslice_fill, simp, simp, simp)
    apply (simp only: bind_Inr)
    apply (subst setslice_fill, simp, simp, simp)
    apply (simp only: bind_Inr)
    apply (subst setslice_fill, simp, simp, simp)
    apply (simp only: bind_Inr)
    apply (subst setslice_fill, simp, simp, simp)
    apply (simp only: bind_Inr)
    apply (subst setslice_fill, simp, simp, simp)
    apply (simp only: bind_Inr)
    apply (subst setslice_fill, simp, simp, simp)
    apply (simp only: bind_Inr)
    apply (subst setslice_fill, simp, simp, simp)
    apply (simp only: bind_Inr)
    apply (subst setslice_fill, simp, simp, simp)
    apply simp
    done
qed


lemma unpack_concat:
  assumes "length q_dot = nq s" "length u_dot = nu s"
    and "length kappa_g = nla_g s" "length La_g = nla_g s" "length la_g = nla_g s"
    and "length la_gamma = nla_gamma s"
    and "length kappa_N = nla_N s" "length La_N = nla_N s" "length la_N = nla_N s"
  shows "unpack s (q_dot @ u_dot @ kappa_g @ La_g @ la_g @ la_gamma @ kappa_N @ La_N @ la_N)
         = (q_dot, u_dot, kappa_g, La_g, la_g, la_gamma, kappa_N, La_N, la_N)"
  using assms by (simp add: unpack_def slice_def)

lemma concat_unpack:
  assumes "nx s = nq s + nu s + 3 * nla_g s + nla_gamma s + 3 * nla_N s"
    and "length x = nx s"
    and "unpack s x = (a, b, c, d, e, f, g, h, i)"
  shows "a @ b @ c @ d @ e @ f @ g @ h @ i = x"
proof -
  let ?n2 = "nq s + nu s"
  let ?n5 = "?n2 + 3 * nla_g s"
  let ?n6 = "?n5 + nla_gamma s"
  have eqs: "a = slice 0 (nq s) x" "b = slice (nq s) ?n2 x"
    "c = slice ?n2 (?n2 + nla_g s) x" "d = slice (?n2 + nla_g s) (?n2 + 2 * nla_g s) x"
    "e = slice (?n2 + 2 * nla_g s) ?n5 x" "f = slice ?n5 ?n6 x"
    "g = slice ?n6 (?n6 + nla_N s) x" "h = slice (?n6 + nla_N s) (?n6 + 2 * nla_N s) x"
    "i = slice (?n6 + 2 * nla_N s) (?n6 + 3 * nla_N s) x"
    using assms(3) by (simp_all add: unpack_def)
  have "h @ i = slice (?n6 + nla_N s) (?n6 + 3 * nla_N s) x"
    unfolding eqs by (rule slice_adjacent) simp_all
  then have "g @ h @ i = slice ?n6 (?n6 + 3 * nla_N s) x"
    unfolding eqs(7) by (simp add: slice_adjacent)
  then have "f @ g @ h @ i = slice ?n5 (?n6 + 3 * nla_N s) x"
    unfolding eqs(6) by (simp add: slice_adjacent)
  then have "e @ f @ g @ h @ i = slice (?n2 + 2 * nla_g s) (?n6 + 3 * nla_N s) x"
    unfolding eqs(5) by (simp add: slice_adjacent)
  then have "d @ e @ f @ g @ h @ i = slice (?n2 + nla_g s) (?n6 + 3 * nla_N s) x"
    unfolding eqs(4) by (simp add: slice_adjacent)
  then have "c @ d @ e @ f @ g @ h @ i = slice ?n2 (?n6 + 3 * nla_N s) x"
    unfolding eqs(3) by (simp add: slice_adjacent)
  then have "b @ c @ d @ e @ f @ g @ h @ i = slice (nq s) (?n6 + 3 * nla_N s) x"
    unfolding eqs(2) by (simp add: slice_adjacent)
  then have "a @ b @ c @ d @ e @ f @ g @ h @ i = slice 0 (?n6 + 3 * nla_N s) x"
    unfolding eqs(1) by (simp add: slice_adjacent)
  then show ?thesis using assms(1,2) by (simp add: slice_def)
qed

text \<open>
  Claim C7. For a solver whose \<open>nx\<close> is the sum of the block sizes (as the constructor
  sets it) and vectors of the configured dimensions, \<open>pack\<close> succeeds, its result has
  length \<open>nx\<close>, and \<open>unpack\<close> gives the nine vectors back. Conversely every vector of
  length \<open>nx\<close> is the packing of what \<open>unpack\<close> extracts from it: the two functions are
  inverse bijections between the flat vectors and the tuples of named quantities.
\<close>

theorem pack_unpack_roundtrip:
  assumes "nx s = nq s + nu s + 3 * nla_g s + nla_gamma s + 3 * nla_N s"
    and "length q_dot = nq s" "length u_dot = nu s"
    and "length kappa_g = nla_g s" "length La_g = nla_g s" "length la_g = nla_g s"
    and "length la_gamma = nla_gamma s"
    and "length kappa_N = nla_N s" "length La_N = nla_N s" "length la_N = nla_N s"
  shows "(\<exists>x. pack s q_dot u_dot kappa_g La_g la_g la_gamma kappa_N La_N la_N = Inr x
            \<and> length x = nx s
            \<and> unpack s x = (q_dot, u_dot, kappa_g, La_g, la_g, la_gamma, kappa_N, La_N, la_N))
       \<and> (\<forall>x. length x = nx s \<longrightarrow>
            (case unpack s x of (a, b, c, d, e, f, g, h, i) \<Rightarrow> pack s a b c d e f g h i) = Inr x)"
proof (intro conjI allI impI)
  show "\<exists>x. pack s q_dot u_dot kappa_g La_g la_g la_gamma kappa_N La_N la_N = Inr x
            \<and> length x = nx s
            \<and> unpack s x = (q_dot, u_dot, kappa_g, La_g, la_g, la_gamma, kappa_N, La_N, la_N)"
    using pack_concat [OF assms] unpack_concat [OF assms(2-)] assms by simp
next
  fix x :: vec
  assume len: "length x = nx s"
  obtain a b c d e f g h i where u: "unpack s x = (a, b, c, d, e, f, g, h, i)"
    by (metis prod_cases3)
  have lens: "length a = nq s" "length b = nu s" "length c = nla_g s" "length d = nla_g s"
    "length e = nla_g s" "length f = nla_gamma s" "length g = nla_N s" "length h = nla_N s"
    "length i = nla_N s"
    using u len assms(1) by (auto simp: unpack_def length_slice)
  have "pack s a b c d e f g h i = Inr (a @ b @ c @ d @ e @ f @ g @ h @ i)"
    by (rule pack_concat [OF assms(1) lens])
  then show "(case unpack s x of (a, b, c, d, e, f, g, h, i) \<Rightarrow> pack s a b c d e f g h i) = Inr x"
    using concat_unpack [OF assms(1) len u] u by simp
qed


theorem pack_unpack_roundtrip_witness:
  "nx ball_solver = nq ball_solver + nu ball_solver + 3 * nla_g ball_solver
       + nla_gamma ball_solver + 3 * nla_N ball_solver
   \<and> length [1::real] = nq ball_solver \<and> length [2::real] = nu ball_solver
   \<and> length ([]::vec) = nla_g ball_solver \<and> length ([]::vec) = nla_gamma ball_solver
   \<and> length [3::real] = nla_N ball_solver \<and> length [4::real] = nla_N ball_solver
   \<and> length [5::real] = nla_N ball_solver
   \<and> length [1, 2, 3, 4, 5::real] = nx ball_solver
   \<and> pack ball_solver [1] [2] [] [] [] [] [3] [4] [5] = Inr [1, 2, 3, 4, 5]
   \<and> unpack ball_solver [1, 2, 3, 4, 5] = ([1], [2], [], [], [], [], [3], [4], [5])"
proof -
  have dims: "nx ball_solver = nq ball_solver + nu ball_solver + 3 * nla_g ball_solver
       + nla_gamma ball_solver + 3 * nla_N ball_solver"
    by (simp add: ball_solver_def)
  have lens: "length [1::real] = nq ball_solver" "length [2::real] = nu ball_solver"
    "length ([]::vec) = nla_g ball_solver" "length ([]::vec) = nla_g ball_solver"
    "length ([]::vec) = nla_g ball_solver" "length ([]::vec) = nla_gamma ball_solver"
    "length [3::real] = nla_N ball_solver" "length [4::real] = nla_N ball_solver"
    "length [5::real] = nla_N ball_solver"
    by (simp_all add: ball_solver_def)
  have u: "unpack ball_solver [1, 2, 3, 4, 5] = ([1], [2], [], [], [], [], [3], [4], [5])"
    by (simp add: unpack_def slice_def ball_solver_def)
  have len: "length [1, 2, 3, 4, 5::real] = nx ball_solver"
    by (simp add: ball_solver_def)
  have "\<forall>x. length x = nx ball_solver \<longrightarrow>
          (case unpack ball_solver x of (a, b, c, d, e, f, g, h, i) \<Rightarrow>
             pack ball_solver a b c d e f g h i) = Inr x"
    using pack_unpack_roundtrip [OF dims lens] by (rule conjunct2)
  then have "(case unpack ball_solver [1, 2, 3, 4, 5] of (a, b, c, d, e, f, g, h, i) \<Rightarrow>
             pack ball_solver a b c d e f g h i) = Inr [1, 2, 3, 4, 5]"
    using len by blast
  then have "pack ball_solver [1] [2] [] [] [] [] [3] [4] [5] = Inr [1, 2, 3, 4, 5]"
    unfolding u by simp
  then show ?thesis using u dims lens len by simp
qed

section \<open>The update rule\<close>

lemma broadcast_same:
  "length xs = length ys \<Longrightarrow> broadcast f xs ys = Inr (map2 f xs ys)"
  by (simp add: broadcast_def)

lemma map2_nth:
  "length xs = n \<Longrightarrow> length ys = n \<Longrightarrow> map2 f xs ys = map (\<lambda>i. f (xs ! i) (ys ! i)) [0..<n]"
  by (auto simp: list_eq_iff_nth_eq)

lemma alpha_blend:
  assumes "length y = n" "length yd = n" "length v = n"
  shows "bind (vadd (smul af yd) (smul (1 - af) y)) (\<lambda>a.
         bind (vsub a (smul am v)) (\<lambda>b. f (sdiv b (1 - am))))
       = f (map (\<lambda>i. (af * yd ! i + (1 - af) * y ! i - am * v ! i) / (1 - am)) [0..<n])"
proof -
  have 1: "vadd (smul af yd) (smul (1 - af) y)
           = Inr (map (\<lambda>i. af * yd ! i + (1 - af) * y ! i) [0..<n])"
    using assms by (simp add: vadd_def broadcast_same smul_def list_eq_iff_nth_eq)
  have 2: "vsub (map (\<lambda>i. af * yd ! i + (1 - af) * y ! i) [0..<n]) (smul am v)
           = Inr (map (\<lambda>i. af * yd ! i + (1 - af) * y ! i - am * v ! i) [0..<n])"
    using assms by (simp add: vsub_def broadcast_same smul_def list_eq_iff_nth_eq)
  show ?thesis
    by (simp add: 1 2 sdiv_def comp_def)
qed

lemma integrate:
  assumes "length w = n" "length v = n" "length z = n"
  shows "bind (vadd (smul (1 - g) v) (smul g w)) (\<lambda>c.
         bind (vadd z (smul h c)) f)
       = f (map (\<lambda>i. z ! i + h * ((1 - g) * v ! i + g * w ! i)) [0..<n])"
proof -
  have 1: "vadd (smul (1 - g) v) (smul g w)
           = Inr (map (\<lambda>i. (1 - g) * v ! i + g * w ! i) [0..<n])"
    using assms by (simp add: vadd_def broadcast_same smul_def list_eq_iff_nth_eq)
  have 2: "vadd z (smul h (map (\<lambda>i. (1 - g) * v ! i + g * w ! i) [0..<n]))
           = Inr (map (\<lambda>i. z ! i + h * ((1 - g) * v ! i + g * w ! i)) [0..<n])"
    using assms by (simp add: vadd_def broadcast_same smul_def list_eq_iff_nth_eq)
  show ?thesis
    by (simp add: 1 2)
qed

lemma update_eval:
  assumes "length y_dotk1 = n" "length (y_dotk s) = n" "length (vk s) = n" "length (yk s) = n"
  shows "update s y_dotk1 store =
    (let vk1 = map (\<lambda>i. (alpha_f s * y_dotk s ! i + (1 - alpha_f s) * y_dotk1 ! i
                           - alpha_m s * vk s ! i) / (1 - alpha_m s)) [0..<n];
         yk1 = map (\<lambda>i. yk s ! i + dt s * ((1 - gamma s) * vk s ! i + gamma s * vk1 ! i)) [0..<n]
     in Inr (if store then s\<lparr>vk := vk1, yk := yk1, y_dotk := y_dotk1,
                              uk := slice (nq s) (nq s + nu s) vk1\<rparr> else s,
             slice 0 (nq s) yk1, slice (nq s) (nq s + nu s) yk1,
             slice 0 (nq s) y_dotk1, slice (nq s) (nq s + nu s) y_dotk1))"
  unfolding update_def
  apply (subst alpha_blend [OF assms(1,2,3)])
  apply (simp only: Let_def)
  apply (subst integrate [where n = n])
  using assms apply simp_all
  done

lemma update_GGL_eval:
  assumes "length (slice 0 (ny_GGL s) xk1') = n" "length (y_dotk_GGL s) = n"
    "length (vk_GGL s) = n" "length (yk_GGL s) = n"
  shows "update_GGL s xk1' store =
    (let y_dotk1 = slice 0 (ny_GGL s) xk1';
         vk1 = map (\<lambda>i. (alpha_f_GGL s * y_dotk_GGL s ! i + (1 - alpha_f_GGL s) * y_dotk1 ! i
                           - alpha_m_GGL s * vk_GGL s ! i) / (1 - alpha_m_GGL s)) [0..<n];
         yk1 = map (\<lambda>i. yk_GGL s ! i
                      + dt_GGL s * ((1 - gamma_GGL s) * vk_GGL s ! i + gamma_GGL s * vk1 ! i)) [0..<n]
     in Inr (if store then s\<lparr>vk_GGL := vk1, yk_GGL := yk1, y_dotk_GGL := y_dotk1\<rparr> else s,
             slice 0 (nq_GGL s) yk1, slice (nq_GGL s) (nq_GGL s + nu_GGL s) yk1,
             slice 0 (nq_GGL s) y_dotk1, slice (nq_GGL s) (nq_GGL s + nu_GGL s) y_dotk1))"
  unfolding update_GGL_def
  apply (simp only: Let_def)
  apply (subst alpha_blend [OF assms(1,2,3)])
  apply (subst integrate [where n = n])
  using assms apply simp_all
  done


text \<open>
  Claim C3. In both classes, for a trial derivative vector of the length of the carried
  history (and \<open>alpha_m \<noteq> 1\<close>, where the floating point quotient is a number), \<open>update\<close>
  succeeds and returns the slices \<open>[:nq]\<close> and \<open>[nq:nq+nu]\<close> of \<open>yk1\<close> and of \<open>y_dotk1\<close>,
  where \<open>vk1 = (alpha_f * y_dotk + (1 - alpha_f) * y_dotk1 - alpha_m * vk) / (1 - alpha_m)\<close>
  and \<open>yk1 = yk + dt * ((1 - gamma) * vk + gamma * vk1)\<close>, componentwise.
\<close>

theorem update_formula:
  assumes "alpha_m s \<noteq> 1"
    and "length y_dotk1 = n" "length (y_dotk s) = n" "length (vk s) = n" "length (yk s) = n"
    and "alpha_m_GGL g \<noteq> 1"
    and "length (slice 0 (ny_GGL g) xk1') = m" "length (y_dotk_GGL g) = m"
      "length (vk_GGL g) = m" "length (yk_GGL g) = m"
  shows
    "(let vk1 = map (\<lambda>i. (alpha_f s * y_dotk s ! i + (1 - alpha_f s) * y_dotk1 ! i
                           - alpha_m s * vk s ! i) / (1 - alpha_m s)) [0..<n];
          yk1 = map (\<lambda>i. yk s ! i + dt s * ((1 - gamma s) * vk s ! i + gamma s * vk1 ! i)) [0..<n]
      in \<exists>s'. update s y_dotk1 store =
           Inr (s', slice 0 (nq s) yk1, slice (nq s) (nq s + nu s) yk1,
                slice 0 (nq s) y_dotk1, slice (nq s) (nq s + nu s) y_dotk1))
   \<and> (let y_dotk1 = slice 0 (ny_GGL g) xk1';
          vk1 = map (\<lambda>i. (alpha_f_GGL g * y_dotk_GGL g ! i + (1 - alpha_f_GGL g) * y_dotk1 ! i
                           - alpha_m_GGL g * vk_GGL g ! i) / (1 - alpha_m_GGL g)) [0..<m];
          yk1 = map (\<lambda>i. yk_GGL g ! i
                      + dt_GGL g * ((1 - gamma_GGL g) * vk_GGL g ! i + gamma_GGL g * vk1 ! i)) [0..<m]
      in \<exists>g'. update_GGL g xk1' store' =
           Inr (g', slice 0 (nq_GGL g) yk1, slice (nq_GGL g) (nq_GGL g + nu_GGL g) yk1,
                slice 0 (nq_GGL g) y_dotk1, slice (nq_GGL g) (nq_GGL g + nu_GGL g) y_dotk1))"
  unfolding update_eval [OF assms(2-5)] update_GGL_eval [OF assms(7-10)]
  by (simp add: Let_def)

theorem update_formula_witness:
  "alpha_m ball_solver \<noteq> 1 \<and> length [0, 1::real] = 2
   \<and> length (y_dotk ball_solver) = 2 \<and> length (vk ball_solver) = 2
   \<and> length (yk ball_solver) = 2
   \<and> alpha_m_GGL ball_solver_GGL \<noteq> 1
   \<and> length (slice 0 (ny_GGL ball_solver_GGL) [0, 1::real]) = 2
   \<and> length (y_dotk_GGL ball_solver_GGL) = 2 \<and> length (vk_GGL ball_solver_GGL) = 2
   \<and> length (yk_GGL ball_solver_GGL) = 2
   \<and> (\<exists>s'. update ball_solver [0, 1] False = Inr (s', [1], [- (881 / 20000)], [0], [1]))
   \<and> (\<exists>g'. update_GGL ball_solver_GGL [0, 1] True = Inr (g', [1], [- (881 / 20000)], [0], [1]))"
proof -
  have h: "alpha_m ball_solver \<noteq> 1" "length [0, 1::real] = 2"
   "length (y_dotk ball_solver) = 2" "length (vk ball_solver) = 2"
   "length (yk ball_solver) = 2"
   "alpha_m_GGL ball_solver_GGL \<noteq> 1"
   "length (slice 0 (ny_GGL ball_solver_GGL) [0, 1::real]) = 2"
   "length (y_dotk_GGL ball_solver_GGL) = 2" "length (vk_GGL ball_solver_GGL) = 2"
   "length (yk_GGL ball_solver_GGL) = 2"
    by (simp_all add: ball_solver_def ball_solver_GGL_def slice_def)
  have u: "[0..<2] = [0, Suc 0]"
    by (simp add: upt_rec)
  show ?thesis
    using h update_formula [OF h, of False True]
    by (simp add: Let_def u ball_solver_def ball_solver_GGL_def slice_def)
qed


text \<open>
  Claim C4, amended. With \<open>store = False\<close> the call returns the object as it was. With
  \<open>store = True\<close> the second class commits exactly \<open>vk\<close>, \<open>yk\<close> and \<open>y_dotk\<close>; the contact
  solver commits these three and also overwrites \<open>uk\<close> with \<open>vk1[nq:nq+nu]\<close>. Nothing else
  changes.
\<close>

theorem update_store:
  assumes "length y_dotk1 = n" "length (y_dotk s) = n" "length (vk s) = n" "length (yk s) = n"
    and "length (slice 0 (ny_GGL g) xk1') = m" "length (y_dotk_GGL g) = m"
      "length (vk_GGL g) = m" "length (yk_GGL g) = m"
  shows
    "(let vk1 = map (\<lambda>i. (alpha_f s * y_dotk s ! i + (1 - alpha_f s) * y_dotk1 ! i
                           - alpha_m s * vk s ! i) / (1 - alpha_m s)) [0..<n];
          yk1 = map (\<lambda>i. yk s ! i + dt s * ((1 - gamma s) * vk s ! i + gamma s * vk1 ! i)) [0..<n]
      in (\<exists>r. update s y_dotk1 False = Inr (s, r))
       \<and> (\<exists>r. update s y_dotk1 True =
             Inr (s\<lparr>vk := vk1, yk := yk1, y_dotk := y_dotk1,
                    uk := slice (nq s) (nq s + nu s) vk1\<rparr>, r)))
   \<and> (let y_dotk1 = slice 0 (ny_GGL g) xk1';
          vk1 = map (\<lambda>i. (alpha_f_GGL g * y_dotk_GGL g ! i + (1 - alpha_f_GGL g) * y_dotk1 ! i
                           - alpha_m_GGL g * vk_GGL g ! i) / (1 - alpha_m_GGL g)) [0..<m];
          yk1 = map (\<lambda>i. yk_GGL g ! i
                      + dt_GGL g * ((1 - gamma_GGL g) * vk_GGL g ! i + gamma_GGL g * vk1 ! i)) [0..<m]
      in (\<exists>r. update_GGL g xk1' False = Inr (g, r))
       \<and> (\<exists>r. update_GGL g xk1' True =
             Inr (g\<lparr>vk_GGL := vk1, yk_GGL := yk1, y_dotk_GGL := y_dotk1\<rparr>, r)))"
  unfolding update_eval [OF assms(1-4)] update_GGL_eval [OF assms(5-8)]
  by (simp add: Let_def)

theorem update_store_counterexample:
  "map_sum id (\<lambda>(s', r). uk s') (update ball_solver [0, 1] True) = Inr [1]
   \<and> uk ball_solver = [0]"
proof -
  have h: "length [0, 1::real] = 2"
   "length (y_dotk ball_solver) = 2" "length (vk ball_solver) = 2"
   "length (yk ball_solver) = 2"
    by (simp_all add: ball_solver_def)
  have u: "[0..<2] = [0, Suc 0]"
    by (simp add: upt_rec)
  show ?thesis
    unfolding update_eval [OF h]
    by (simp add: Let_def u ball_solver_def slice_def)
qed

theorem update_store_witness:
  "length [0, 1::real] = 2
   \<and> length (y_dotk ball_solver) = 2 \<and> length (vk ball_solver) = 2
   \<and> length (yk ball_solver) = 2
   \<and> length (slice 0 (ny_GGL ball_solver_GGL) [0, 1::real]) = 2
   \<and> length (y_dotk_GGL ball_solver_GGL) = 2 \<and> length (vk_GGL ball_solver_GGL) = 2
   \<and> length (yk_GGL ball_solver_GGL) = 2
   \<and> (\<exists>r. update ball_solver [0, 1] False = Inr (ball_solver, r))
   \<and> (\<exists>r. update ball_solver [0, 1] True =
         Inr (ball_solver\<lparr>vk := [0, 1], yk := [1, - (881 / 20000)], y_dotk := [0, 1],
                           uk := [1]\<rparr>, r))
   \<and> (\<exists>r. update_GGL ball_solver_GGL [0, 1] False = Inr (ball_solver_GGL, r))
   \<and> (\<exists>r. update_GGL ball_solver_GGL [0, 1] True =
         Inr (ball_solver_GGL\<lparr>vk_GGL := [0, 1], yk_GGL := [1, - (881 / 20000)],
                               y_dotk_GGL := [0, 1]\<rparr>, r))"
proof -
  have h: "length [0, 1::real] = 2"
   "length (y_dotk ball_solver) = 2" "length (vk ball_solver) = 2"
   "length (yk ball_solver) = 2"
   "length (slice 0 (ny_GGL ball_solver_GGL) [0, 1::real]) = 2"
   "length (y_dotk_GGL ball_solver_GGL) = 2" "length (vk_GGL ball_solver_GGL) = 2"
   "length (yk_GGL ball_solver_GGL) = 2"
    by (simp_all add: ball_solver_def ball_solver_GGL_def slice_def)
  have u: "[0..<2] = [0, Suc 0]"
    by (simp add: upt_rec)
  have v: "vk ball_solver = [0, - (981 / 100)]" "yk ball_solver = [1, 0]"
     "y_dotk ball_solver = [0, - (981 / 100)]" "nq ball_solver = 1" "nu ball_solver = 1"
     "alpha_m ball_solver = 1 / 2" "alpha_f ball_solver = 1 / 2" "gamma ball_solver = 1 / 2"
     "dt ball_solver = 1 / 100"
     "vk_GGL ball_solver_GGL = [0, - (981 / 100)]" "yk_GGL ball_solver_GGL = [1, 0]"
     "y_dotk_GGL ball_solver_GGL = [0, - (981 / 100)]" "ny_GGL ball_solver_GGL = 2"
     "alpha_m_GGL ball_solver_GGL = 1 / 2" "alpha_f_GGL ball_solver_GGL = 1 / 2"
     "gamma_GGL ball_solver_GGL = 1 / 2" "dt_GGL ball_solver_GGL = 1 / 100"
    by (simp_all add: ball_solver_def ball_solver_GGL_def)
  show ?thesis
    using h update_store [OF h]
    by (simp add: Let_def u v slice_def)
qed


section \<open>Construction\<close>

lemma map_sum_bind: "map_sum id h (bind m f) = bind m (\<lambda>a. map_sum id h (f a))"
  by (cases m) simp_all

lemma init_fields:
  assumes "init ex mdl t1' dt' rho tol' mi ef nj di = Inr s"
  shows "init_parameters rho = Inr (alpha_m s, alpha_f s, gamma s, beta s)"
    and "t1 s = init_t1 (model_t0 mdl) t1'"
    and "DAE_index s = di" and "1 \<le> di" and "di \<le> 2"
    and "nx s = nq s + nu s + 3 * nla_g s + nla_gamma s + 3 * nla_N s"
    and "ny s = nq s + nu s"
    and "nR_smooth s = None"
  using assms unfolding init_def
  by (auto simp: bind_eq_Inr Let_def split: if_splits)

lemma init_GGL_fields:
  assumes "init_GGL ex mdl t1' dt' rho tol' mi ef nj = Inr g"
  shows "init_parameters_GGL dt' rho
           = Inr (alpha_m_GGL g, alpha_f_GGL g, gamma_GGL g, gamma_prime_GGL g)"
    and "t1_GGL g = init_t1 (model_t0 mdl) t1'"
  using assms unfolding init_GGL_def
  by (auto simp: bind_eq_Inr Let_def split: if_splits)

lemma init_GGL_ball: "init_GGL lib ball 1 (1/100) 1 (1/10^8) 40 max_abs True = Inr ball_solver_GGL"
  by (simp add: init_GGL_def init_parameters_GGL_def ball_def lib_def assert_allclose_def
      allclose_zeros_def broadcast_def ball_solver_GGL_def slice_def init_t1_def Let_def)

lemma init_ball: "init lib ball 1 (1/100) 1 (1/10^8) 40 max_abs True 2 = Inr ball_solver"
  by (simp add: init_def init_parameters_def ball_def lib_def assert_allclose_def
      allclose_zeros_def broadcast_def ball_solver_def slice_def init_t1_def matvec_def vadd_def
      pack_def setslice_def power2_eq_square Let_def)

text \<open>
  Claim C5, amended. For \<open>rho_inf\<close> in \<open>[0, 1]\<close>, the constructor of the contact solver
  derives \<open>alpha_m = (2 rho_inf - 1) / (rho_inf + 1)\<close>, while the constructors of
  GenAlphaFirstOrderVelocityGGL and GenAlphaFirstOrderVelocity derive
  \<open>alpha_m = (3 rho_inf - 1) / (2 (rho_inf + 1))\<close>; all three derive
  \<open>alpha_f = rho_inf / (rho_inf + 1)\<close> and \<open>gamma = 1/2 + alpha_f - alpha_m\<close>.
\<close>

theorem gen_alpha_parameters:
  assumes "0 \<le> rho" "rho \<le> 1"
    and "init ex mdl t1' dt' rho tol' mi ef nj di = Inr s"
    and "init_GGL ex' mdl' t1'' dt'' rho tol'' mi' ef' nj' = Inr g"
  shows "alpha_m s = (2 * rho - 1) / (rho + 1)
       \<and> alpha_f s = rho / (rho + 1)
       \<and> gamma s = 1 / 2 + alpha_f s - alpha_m s
       \<and> alpha_m_GGL g = (3 * rho - 1) / (2 * (rho + 1))
       \<and> alpha_f_GGL g = rho / (rho + 1)
       \<and> gamma_GGL g = 1 / 2 + alpha_f_GGL g - alpha_m_GGL g
       \<and> (\<exists>x. init_parameters_FirstOrderVelocity dt'' rho =
                Inr ((3 * rho - 1) / (2 * (rho + 1)), rho / (rho + 1),
                     1 / 2 + rho / (rho + 1) - (3 * rho - 1) / (2 * (rho + 1)), x))"
proof -
  have nz: "rho + 1 \<noteq> 0" using assms(1) by simp
  have "(3 * rho - 1) / (2 * (rho + 1)) \<noteq> 1"
    using assms(1,2) nz by (simp add: field_simps)
  then have nz2: "1 - (3 * rho - 1) / (2 * (rho + 1)) \<noteq> 0" by simp
  have a: "init_parameters rho = Inr (alpha_m s, alpha_f s, gamma s, beta s)"
    by (rule init_fields(1) [OF assms(3)])
  have b: "init_parameters_GGL dt'' rho
           = Inr (alpha_m_GGL g, alpha_f_GGL g, gamma_GGL g, gamma_prime_GGL g)"
    by (rule init_GGL_fields(1) [OF assms(4)])
  from a nz have "alpha_m s = (2 * rho - 1) / (rho + 1) \<and> alpha_f s = rho / (rho + 1)
       \<and> gamma s = 1 / 2 + alpha_f s - alpha_m s"
    by (auto simp: init_parameters_def Let_def)
  moreover from b nz nz2 have "alpha_m_GGL g = (3 * rho - 1) / (2 * (rho + 1))
       \<and> alpha_f_GGL g = rho / (rho + 1)
       \<and> gamma_GGL g = 1 / 2 + alpha_f_GGL g - alpha_m_GGL g"
    by (auto simp: init_parameters_GGL_def Let_def)
  moreover from nz nz2 have "\<exists>x. init_parameters_FirstOrderVelocity dt'' rho =
                Inr ((3 * rho - 1) / (2 * (rho + 1)), rho / (rho + 1),
                     1 / 2 + rho / (rho + 1) - (3 * rho - 1) / (2 * (rho + 1)), x)"
    by (simp add: init_parameters_FirstOrderVelocity_def Let_def)
  ultimately show ?thesis by simp
qed


theorem gen_alpha_parameters_witness:
  "(0::real) \<le> 1 \<and> (1::real) \<le> 1
   \<and> init lib ball 1 (1/100) 1 (1/10^8) 40 max_abs True 2 = Inr ball_solver
   \<and> init_GGL lib ball 1 (1/100) 1 (1/10^8) 40 max_abs True = Inr ball_solver_GGL
   \<and> alpha_m ball_solver = 1 / 2 \<and> alpha_f ball_solver = 1 / 2 \<and> gamma ball_solver = 1 / 2
   \<and> alpha_m_GGL ball_solver_GGL = 1 / 2 \<and> alpha_f_GGL ball_solver_GGL = 1 / 2
   \<and> gamma_GGL ball_solver_GGL = 1 / 2
   \<and> (\<exists>x. init_parameters_FirstOrderVelocity (1 / 100) 1 = Inr (1 / 2, 1 / 2, 1 / 2, x))"
  using gen_alpha_parameters [OF _ _ init_ball init_GGL_ball] init_ball init_GGL_ball
  by simp

theorem gen_alpha_parameters_counterexample:
  "map_sum id alpha_m_GGL (init_GGL lib ball 1 (1/100) 0 (1/10^8) 40 max_abs True) = Inr (- (1 / 2))
   \<and> (2 * 0 - 1) / (0 + 1) = (- 1::real)"
  by (simp add: init_GGL_def init_parameters_GGL_def ball_def lib_def assert_allclose_def
      allclose_zeros_def broadcast_def slice_def init_t1_def Let_def)

lemma init_t1_general:
  "init ex mdl t1' dt' rho tol' mi ef nj di
   = map_sum id (\<lambda>s. s\<lparr>t1 := init_t1 (model_t0 mdl) t1'\<rparr>)
       (init ex mdl t1a dt' rho tol' mi ef nj di)"
  unfolding init_def
  by (simp add: map_sum_bind Let_def split_def if_distrib [of "map_sum id _"] 
      pack_def cong: if_cong)

lemma init_GGL_t1_general:
  "init_GGL ex mdl t1' dt' rho tol' mi ef nj
   = map_sum id (\<lambda>s. s\<lparr>t1_GGL := init_t1 (model_t0 mdl) t1'\<rparr>)
       (init_GGL ex mdl t1a dt' rho tol' mi ef nj)"
  unfolding init_GGL_def
  by (simp add: map_sum_bind Let_def split_def if_distrib [of "map_sum id _"] cong: if_cong)

text \<open>
  Claim C9. With \<open>t1 \<le> t0\<close> the constructors of both classes behave exactly as with any
  other end time \<open>t1a\<close> (a valid one, say), raising the same exception or returning the
  same object, except that the attribute \<open>t1\<close> of the object holds the ValueError object
  that was built and never raised. The time horizon is not rejected.
\<close>

theorem t1_not_rejected:
  assumes "t1' \<le> model_t0 mdl"
  shows "init ex mdl t1' dt' rho tol' mi ef nj di
         = map_sum id (\<lambda>s. s\<lparr>t1 := ValueError_object\<rparr>)
             (init ex mdl t1a dt' rho tol' mi ef nj di)
       \<and> init_GGL ex mdl t1' dt' rho tol' mi ef nj
         = map_sum id (\<lambda>g. g\<lparr>t1_GGL := ValueError_object\<rparr>)
             (init_GGL ex mdl t1a dt' rho tol' mi ef nj)"
proof -
  have "init_t1 (model_t0 mdl) t1' = ValueError_object"
    using assms by (simp add: init_t1_def)
  then show ?thesis
    using init_t1_general [of ex mdl t1' dt' rho tol' mi ef nj di t1a]
      init_GGL_t1_general [of ex mdl t1' dt' rho tol' mi ef nj t1a]
    by simp
qed

theorem t1_not_rejected_witness:
  "(0::real) \<le> model_t0 ball
   \<and> init lib ball 0 (1/100) 1 (1/10^8) 40 max_abs True 2
       = Inr (ball_solver\<lparr>t1 := ValueError_object\<rparr>)
   \<and> init_GGL lib ball 0 (1/100) 1 (1/10^8) 40 max_abs True
       = Inr (ball_solver_GGL\<lparr>t1_GGL := ValueError_object\<rparr>)"
proof -
  have h: "(0::real) \<le> model_t0 ball" by (simp add: ball_def)
  show ?thesis
    using h t1_not_rejected [OF h, of lib "1/100" 1 "1/10^8" 40 max_abs True 2 1]
      init_ball init_GGL_ball
    by simp
qed


section \<open>The residual: what it assigns and what it reads\<close>

lemma update_False: "update s y False = Inr (s', r) \<Longrightarrow> s' = s"
  by (auto simp: update_def bind_eq_Inr Let_def)

lemma R_eval_state: "R_eval s t x = Inr (s1, l) \<Longrightarrow> s1 = s"
  unfolding R_eval_def Let_def
  by (auto simp: bind_eq_Inr split: prod.splits dest: update_False)



lemma update_index_sets_fields:
  assumes "update_index_sets s l = (s', r)"
  shows "nR_smooth s' = nR_smooth s" "nq s' = nq s" "nu s' = nu s" "nla_g s' = nla_g s"
    "nla_gamma s' = nla_gamma s" "nla_N s' = nla_N s" "model s' = model s"
  using assms unfolding update_index_sets_def Let_def
  by (auto split: sum.splits)

lemma R_success:
  assumes "R s t x b = (s', Inr r)" and "R_eval s t x = Inr (s1, l)"
  shows "\<exists>R0. R_smooth s t l = Inr R0 \<and> R_contacts s' l R0 = Inr r"
    and "nR_smooth s' = Some (nq s + nu s + 3 * nla_g s + nla_gamma s)"
    and "nla_N s' = nla_N s"
proof -
  have s1: "s1 = s" using assms(2) by (rule R_eval_state)
  let ?s2 = "s\<lparr>nR_smooth := Some (nq s + nu s + 3 * nla_g s + nla_gamma s)\<rparr>"
  obtain R0 where R0: "R_smooth s t l = Inr R0"
    using assms s1 unfolding R_def by (cases "R_smooth s t l") auto
  have *: "(case (if b then update_index_sets ?s2 l else (?s2, Inr ())) of
             (s3, Inl e) \<Rightarrow> (s3, Inl e)
           | (s3, Inr u) \<Rightarrow> (s3, R_contacts s3 l R0)) = (s', Inr r)"
    using assms s1 R0 unfolding R_def by (simp add: Let_def)
  show "\<exists>R0. R_smooth s t l = Inr R0 \<and> R_contacts s' l R0 = Inr r"
    using * R0 by (auto split: if_splits prod.splits sum.splits)
  show "nR_smooth s' = Some (nq s + nu s + 3 * nla_g s + nla_gamma s)"
    using * by (auto split: if_splits prod.splits sum.splits dest: update_index_sets_fields(1))
  show "nla_N s' = nla_N s"
    using * by (auto split: if_splits prod.splits sum.splits dest: update_index_sets_fields(6))
qed

subsection \<open>Evaluation on the test system\<close>

lemmas numpy_defs = slice_def vadd_def vsub_def vmul_def broadcast_def smul_def sdiv_def
  matvec_def setslice_def le_zero_def mand_def mnot_def where_ind_def getmask_def setind_def
  getattr_def

lemma ball_landed_fields:
  "nq ball_landed = 1" "nu ball_landed = 1" "nla_g ball_landed = 0" "nla_gamma ball_landed = 0"
  "nla_N ball_landed = 1" "ny ball_landed = 2" "nx ball_landed = 5"
  "alpha_m ball_landed = 1 / 2" "alpha_f ball_landed = 1 / 2" "gamma ball_landed = 1 / 2"
  "beta ball_landed = 1 / 4" "dt ball_landed = 1 / 100"
  "uk ball_landed = [0]" "yk ball_landed = [0, 0]" "y_dotk ball_landed = [0, - (981 / 100)]"
  "vk ball_landed = [0, - (981 / 100)]" "la_Nk ball_landed = [0]" "la_Nbark ball_landed = [0]"
  "model ball_landed = ball" "nR_smooth ball_landed = None"
  by (simp_all add: ball_landed_def ball_solver_def)

lemma R_eval_landed:
  "R_eval ball_landed (1/100) [0, -(981/100), 0, 0, 0] = Inr (ball_landed,
     \<lparr>qk1 = [0], uk1 = [- (981 / 10000)], q_dotk1 = [0], u_dotk1 = [- (981 / 100)],
      kappa_gk1 = [], La_gk1 = [], la_gk1 = [], la_gammak1 = [],
      kappa_Nk1 = [0], La_Nk1 = [0], la_Nk1 = [0],
      la_Nbark1 = [0], P_Nk1 = [0], kappa_hatNk1 = [0],
      Mk1 = [[1]], W_gk1 = [[]], W_gammak1 = [[]], W_Nk1 = [[1]],
      g_Nk1 = [0], xi_Nk1 = [- (981 / 10000)], g_N_ddotk1 = [- (981 / 100)]\<rparr>)"
  by (simp add: R_eval_def unpack_def update_def Let_def ball_landed_fields numpy_defs ball_def)


lemma ball_frozen_fields:
  "nq ball_frozen = 1" "nu ball_frozen = 1" "nla_g ball_frozen = 0" "nla_gamma ball_frozen = 0"
  "nla_N ball_frozen = 1" "ny ball_frozen = 2" "nx ball_frozen = 5"
  "alpha_m ball_frozen = 1 / 2" "alpha_f ball_frozen = 1 / 2" "gamma ball_frozen = 1 / 2"
  "beta ball_frozen = 1 / 4" "dt ball_frozen = 1 / 100"
  "uk ball_frozen = [0]" "yk ball_frozen = [0, 0]" "y_dotk ball_frozen = [0, - (981 / 100)]"
  "vk ball_frozen = [0, - (981 / 100)]" "la_Nk ball_frozen = [0]" "la_Nbark ball_frozen = [0]"
  "model ball_frozen = ball" "nR_smooth ball_frozen = Some 2"
  "Ai1 ball_frozen = Some [True]" "Bi1 ball_frozen = Some [True]" "Ci1 ball_frozen = Some [True]"
  by (simp_all add: ball_frozen_def ball_landed_def ball_solver_def)

lemma R_landed:
  "R ball_landed (1/100) [0, -(981/100), 0, 0, 0] True
   = (ball_frozen, Inr [981 / 10000, 0, 0, - (981 / 10000), - (981 / 100)])"
  unfolding R_def R_eval_landed
  by (simp add: R_smooth_def update_index_sets_def R_contacts_def Let_def ball_landed_fields
      numpy_defs ball_def ball_frozen_def eval_nat_numeral)

lemma R_frozen:
  "snd (R ball_frozen (1/100) [0, -(981/100), 0, 0, 7] False)
   = Inr [981 / 10000, - 7, 0, - (981 / 10000), - (981 / 100)]"
  by (simp add: R_def R_eval_def unpack_def update_def R_smooth_def R_contacts_def Let_def
      ball_frozen_fields numpy_defs ball_def eval_nat_numeral)


subsection \<open>Frozen index sets\<close>

text \<open>
  Claim C8. Once \<open>nR_smooth\<close> has its value, which the first evaluation of \<open>R\<close> that
  reaches the contact rows assigns and nothing changes (so in every state in which the
  index sets exist), a call of \<open>R\<close> with \<open>update_index_set = False\<close> returns the object
  unchanged; hence a second call with the same \<open>t\<close> and \<open>x\<close> starts from the same state and
  returns the same residual (or raises the same exception).
\<close>

theorem R_frozen_idempotent:
  assumes "nR_smooth s = Some (nq s + nu s + 3 * nla_g s + nla_gamma s)"
  shows "fst (R s t x False) = s \<and> R (fst (R s t x False)) t x False = R s t x False"
proof -
  have "s\<lparr>nR_smooth := Some (nq s + nu s + 3 * nla_g s + nla_gamma s)\<rparr> = s"
    using assms by simp
  then have "fst (R s t x False) = s"
    unfolding R_def Let_def
    by (auto split: sum.splits prod.splits dest!: R_eval_state)
  then show ?thesis by simp
qed


theorem R_frozen_idempotent_witness:
  "nR_smooth ball_frozen = Some (nq ball_frozen + nu ball_frozen + 3 * nla_g ball_frozen
                                  + nla_gamma ball_frozen)
   \<and> R ball_frozen (1/100) [0, -(981/100), 0, 0, 7] False
       = (ball_frozen, Inr [981 / 10000, - 7, 0, - (981 / 10000), - (981 / 100)])"
proof -
  have h: "nR_smooth ball_frozen = Some (nq ball_frozen + nu ball_frozen + 3 * nla_g ball_frozen
                                  + nla_gamma ball_frozen)"
    by (simp add: ball_frozen_fields)
  have "fst (R ball_frozen (1/100) [0, -(981/100), 0, 0, 7] False) = ball_frozen"
    using R_frozen_idempotent [OF h] by (rule conjunct1)
  then have "R ball_frozen (1/100) [0, -(981/100), 0, 0, 7] False
       = (ball_frozen, Inr [981 / 10000, - 7, 0, - (981 / 10000), - (981 / 100)])"
    using R_frozen by (simp add: prod_eq_iff)
  then show ?thesis using h by simp
qed

subsection \<open>DAE_index\<close>


















section \<open>Index sets and contact rows\<close>

lemma length_put: "length (put ind vals r) = length r"
  by (induction ind vals r rule: put.induct) simp_all

lemma put_nth:
  "\<forall>i \<in> set ind. off + i < length r \<Longrightarrow>
   put (map (\<lambda>i. off + i) ind) (map g ind) r ! j
   = (if off \<le> j \<and> j - off \<in> set ind then g (j - off) else r ! j)"
proof (induction ind arbitrary: r)
  case Nil
  show ?case by simp
next
  case (Cons i ind)
  have "\<forall>i' \<in> set ind. off + i' < length (r[off + i := g i])"
    using Cons.prems by simp
  from Cons.IH [OF this] show ?case
    using Cons.prems by (auto simp: nth_list_update)
qed

lemma getmask_where:
  assumes "getmask v m = Inr vals"
  shows "length m = length v" and "vals = map (\<lambda>i. v ! i) (where_ind m)"
proof -
  show len: "length m = length v"
    using assms by (cases "length m = length v") (simp_all add: getmask_def)
  have "zip v m = map (\<lambda>i. (v ! i, m ! i)) [0..<length m]"
  proof (rule nth_equalityI)
    show "length (zip v m) = length (map (\<lambda>i. (v ! i, m ! i)) [0..<length m])"
      by (simp add: len)
  next
    fix i
    assume "i < length (zip v m)"
    then show "zip v m ! i = map (\<lambda>i. (v ! i, m ! i)) [0..<length m] ! i"
      by simp
  qed
  then have "map fst (filter snd (zip v m)) = map (\<lambda>i. v ! i) (filter (\<lambda>i. m ! i) [0..<length m])"
    by (simp add: filter_map comp_def)
  moreover have "vals = map fst (filter snd (zip v m))"
    using assms by (simp add: getmask_def len)
  ultimately show "vals = map (\<lambda>i. v ! i) (where_ind m)"
    by (simp add: where_ind_def)
qed

lemma set_where_ind: "set (where_ind m) = {i. i < length m \<and> m ! i}"
  by (auto simp: where_ind_def)

lemma setind_mask:
  assumes "getmask v m = Inr vals" and "setind off (where_ind m) vals r = Inr r'"
  shows "length r' = length r"
    and "r' ! j = (if off \<le> j \<and> j - off < length m \<and> m ! (j - off) then v ! (j - off)
                   else r ! j)"
proof -
  have vals: "vals = map (\<lambda>i. v ! i) (where_ind m)"
    by (rule getmask_where(2) [OF assms(1)])
  have inr: "\<forall>i \<in> set (where_ind m). off + i < length r"
    using assms(2) by (auto simp: setind_def split: if_splits)
  have r': "r' = put (map (\<lambda>i. off + i) (where_ind m)) (map (\<lambda>i. v ! i) (where_ind m)) r"
    using assms(2) inr unfolding vals
    by (simp add: setind_def split: if_splits)
  show "length r' = length r"
    unfolding r' by (rule length_put)
  show "r' ! j = (if off \<le> j \<and> j - off < length m \<and> m ! (j - off) then v ! (j - off)
                   else r ! j)"
    unfolding r' put_nth [OF inr] by (simp add: set_where_ind)
qed

lemma mand_same:
  "length a = length b \<Longrightarrow> mand a b = Inr (map2 (\<and>) a b)"
  by (simp add: mand_def broadcast_def)

lemma mand_nested:
  assumes "mand a x = Inr b" and "i < length a" and "i < length b" 
  shows "b ! i \<longrightarrow> a ! i"
proof (cases "length a = length x")
  case True
  then show ?thesis using assms by (auto simp: mand_def broadcast_def)
next
  case False
  show ?thesis
  proof (cases "length a = 1")
    case True
    then have "i = 0" using assms(2) by simp
    moreover have "a ! 0 = hd a" using True by (cases a) auto
    ultimately show ?thesis
      using assms True False by (auto simp: mand_def broadcast_def)
  next
    case False
    then show ?thesis
      using assms \<open>length a \<noteq> length x\<close>
      by (auto simp: mand_def broadcast_def split: if_splits)
  qed
qed

lemma nested_after_update:
  assumes "update_index_sets s l = (s', Inr u)"
  shows "\<exists>A B C. Ai1 s' = Some A \<and> Bi1 s' = Some B \<and> Ci1 s' = Some C
         \<and> (\<forall>i. i < length A \<and> i < length B \<and> i < length C
                \<longrightarrow> (C ! i \<longrightarrow> B ! i) \<and> (B ! i \<longrightarrow> A ! i))"
  using assms unfolding update_index_sets_def Let_def
  by (auto split: sum.splits simp: bind_eq_Inr dest: mand_nested)

text \<open>
  Claim C2. Every evaluation of \<open>R\<close> that recomputes the index sets
  (\<open>update_index_set = True\<close>) and returns a residual leaves three index sets that are
  nested at every contact index: \<open>C[i]\<close> implies \<open>B[i]\<close>, and \<open>B[i]\<close> implies \<open>A[i]\<close>.
\<close>

theorem index_sets_nested:
  assumes "R s t x True = (s', Inr r)"
  shows "\<exists>A B C. Ai1 s' = Some A \<and> Bi1 s' = Some B \<and> Ci1 s' = Some C
         \<and> (\<forall>i. i < length A \<and> i < length B \<and> i < length C
                \<longrightarrow> (C ! i \<longrightarrow> B ! i) \<and> (B ! i \<longrightarrow> A ! i))"
  using assms unfolding R_def Let_def
  by (auto split: sum.splits prod.splits dest!: nested_after_update)


theorem index_sets_nested_witness:
  "R ball_landed (1/100) [0, -(981/100), 0, 0, 0] True
     = (ball_frozen, Inr [981 / 10000, 0, 0, - (981 / 10000), - (981 / 100)])
   \<and> Ai1 ball_frozen = Some [True] \<and> Bi1 ball_frozen = Some [True]
   \<and> Ci1 ball_frozen = Some [True]"
  using index_sets_nested [OF R_landed] R_landed
  by (simp add: ball_frozen_fields)


lemma mnot_nth: "i < length m \<Longrightarrow> mnot m ! i = (\<not> m ! i)"
  by (simp add: mnot_def)

lemma length_mnot: "length (mnot m) = length m"
  by (simp add: mnot_def)

lemma rows_of_R_contacts:
  assumes RC: "R_contacts s l R0 = Inr r"
    and nR: "nR_smooth s = Some nR"
    and masks: "Ai1 s = Some A" "Bi1 s = Some B" "Ci1 s = Some C"
    and lens: "length A = nla_N s" "length B = nla_N s" "length C = nla_N s"
    and i: "i < nla_N s"
  shows "r ! (nR + i) = (if A ! i then g_Nk1 l ! i else kappa_hatNk1 l ! i)"
    and "r ! (nR + nla_N s + i) = (if A ! i \<and> B ! i then xi_Nk1 l ! i else P_Nk1 l ! i)"
    and "r ! (nR + 2 * nla_N s + i)
         = (if A ! i \<and> B ! i \<and> C ! i then g_N_ddotk1 l ! i else la_Nk1 l ! i)"
proof -
  let ?n = "nla_N s"
  define A_N where "A_N = map2 (\<and>) A B"
  define B_N where "B_N = map2 (\<and>) A_N C"
  have AN: "mand A B = Inr A_N" unfolding A_N_def using lens by (simp add: mand_same)
  have lAN: "length A_N = ?n" unfolding A_N_def using lens by simp
  have BN: "mand A_N C = Inr B_N" unfolding B_N_def using lens lAN by (simp add: mand_same)
  have lBN: "length B_N = ?n" unfolding B_N_def using lens lAN by simp
  have ANi: "A_N ! i = (A ! i \<and> B ! i)" unfolding A_N_def using lens i by simp
  have BNi: "B_N ! i = (A ! i \<and> B ! i \<and> C ! i)" unfolding B_N_def using lens lAN i ANi by simp
  from RC obtain v1 R1 v2 R2 v3 R3 v4 R4 v5 R5 v6 where
    v1: "getmask (g_Nk1 l) A = Inr v1" and R1: "setind nR (where_ind A) v1 R0 = Inr R1" and
    v2: "getmask (kappa_hatNk1 l) (mnot A) = Inr v2" and
    R2: "setind nR (where_ind (mnot A)) v2 R1 = Inr R2" and
    v3: "getmask (xi_Nk1 l) A_N = Inr v3" and
    R3: "setind (nR + ?n) (where_ind A_N) v3 R2 = Inr R3" and
    v4: "getmask (P_Nk1 l) (mnot A_N) = Inr v4" and
    R4: "setind (nR + ?n) (where_ind (mnot A_N)) v4 R3 = Inr R4" and
    v5: "getmask (g_N_ddotk1 l) B_N = Inr v5" and
    R5: "setind (nR + 2 * ?n) (where_ind B_N) v5 R4 = Inr R5" and
    v6: "getmask (la_Nk1 l) (mnot B_N) = Inr v6" and
    R6: "setind (nR + 2 * ?n) (where_ind (mnot B_N)) v6 R5 = Inr r"
    unfolding R_contacts_def masks nR getattr_def option.case bind_Inr AN BN
    by (auto simp: bind_eq_Inr)
  note n1 = setind_mask(2) [OF v1 R1] and n2 = setind_mask(2) [OF v2 R2]
    and n3 = setind_mask(2) [OF v3 R3] and n4 = setind_mask(2) [OF v4 R4]
    and n5 = setind_mask(2) [OF v5 R5] and n6 = setind_mask(2) [OF v6 R6]
  show "r ! (nR + i) = (if A ! i then g_Nk1 l ! i else kappa_hatNk1 l ! i)"
    unfolding n6 n5 n4 n3 n2 n1 using i lens by (simp add: length_mnot mnot_nth)
  show "r ! (nR + nla_N s + i) = (if A ! i \<and> B ! i then xi_Nk1 l ! i else P_Nk1 l ! i)"
    unfolding n6 n5 n4 n3 using i lAN ANi by (simp add: length_mnot mnot_nth)
  show "r ! (nR + 2 * nla_N s + i)
         = (if A ! i \<and> B ! i \<and> C ! i then g_N_ddotk1 l ! i else la_Nk1 l ! i)"
    unfolding n6 n5 using i lBN BNi by (simp add: length_mnot mnot_nth)
qed


text \<open>
  Claim C1. When \<open>R\<close> returns a residual \<open>r\<close>, with index sets \<open>A\<close>, \<open>B\<close>, \<open>C\<close> over the
  \<open>nla_N\<close> contacts (those just recomputed, or the frozen ones), then for every contact
  \<open>i\<close> the three contact rows, at offsets \<open>nR_smooth\<close>, \<open>nR_smooth + nla_N\<close> and
  \<open>nR_smooth + 2 * nla_N\<close> with \<open>nR_smooth = nq + nu + 3 * nla_g + nla_gamma\<close>, are:
  \<open>g_N[i]\<close> if \<open>A[i]\<close>, else \<open>kappa_hat_N[i]\<close>; \<open>xi_N[i]\<close> if \<open>A[i]\<close> and \<open>B[i]\<close>, else \<open>P_N[i]\<close>;
  \<open>g_N_ddot[i]\<close> if \<open>A[i]\<close>, \<open>B[i]\<close> and \<open>C[i]\<close>, else \<open>la_N[i]\<close>. The quantities are the
  local variables \<open>l\<close> that \<open>R\<close> computes from \<open>x\<close>.
\<close>

theorem R_contact_rows:
  assumes "R s tk1' xk1' b = (s', Inr r)"
    and "R_eval s tk1' xk1' = Inr (s1, l)"
    and "Ai1 s' = Some A" "Bi1 s' = Some B" "Ci1 s' = Some C"
    and "length A = nla_N s" "length B = nla_N s" "length C = nla_N s"
    and "i < nla_N s"
  shows "r ! (nq s + nu s + 3 * nla_g s + nla_gamma s + i)
           = (if A ! i then g_Nk1 l ! i else kappa_hatNk1 l ! i)
       \<and> r ! (nq s + nu s + 3 * nla_g s + nla_gamma s + nla_N s + i)
           = (if A ! i \<and> B ! i then xi_Nk1 l ! i else P_Nk1 l ! i)
       \<and> r ! (nq s + nu s + 3 * nla_g s + nla_gamma s + 2 * nla_N s + i)
           = (if A ! i \<and> B ! i \<and> C ! i then g_N_ddotk1 l ! i else la_Nk1 l ! i)"
proof -
  obtain R0 where RC: "R_contacts s' l R0 = Inr r"
    using R_success(1) [OF assms(1,2)] by blast
  have nR: "nR_smooth s' = Some (nq s + nu s + 3 * nla_g s + nla_gamma s)"
    by (rule R_success(2) [OF assms(1,2)])
  have n: "nla_N s' = nla_N s"
    by (rule R_success(3) [OF assms(1,2)])
  show ?thesis
    using rows_of_R_contacts [OF RC nR assms(3-5), of i] assms(6-9) unfolding n
    by simp
qed

theorem R_contact_rows_witness:
  "R ball_landed (1/100) [0, -(981/100), 0, 0, 0] True
     = (ball_frozen, Inr [981 / 10000, 0, 0, - (981 / 10000), - (981 / 100)])
   \<and> Ai1 ball_frozen = Some [True] \<and> Bi1 ball_frozen = Some [True]
   \<and> Ci1 ball_frozen = Some [True]
   \<and> length [True] = nla_N ball_landed \<and> 0 < nla_N ball_landed
   \<and> [981 / 10000, 0, 0, - (981 / 10000), - (981 / 100)] ! 2 = (0::real)
   \<and> [981 / 10000, 0, 0, - (981 / 10000), - (981 / 100)] ! 3 = (- (981 / 10000)::real)
   \<and> [981 / 10000, 0, 0, - (981 / 10000), - (981 / 100)] ! 4 = (- (981 / 100)::real)"
proof -
  have m: "Ai1 ball_frozen = Some [True]" "Bi1 ball_frozen = Some [True]"
    "Ci1 ball_frozen = Some [True]"
    by (simp_all add: ball_frozen_fields)
  have n: "length [True] = nla_N ball_landed" "0 < nla_N ball_landed"
    by (simp_all add: ball_landed_fields)
  show ?thesis
    using R_contact_rows [OF R_landed R_eval_landed m n(1) n(1) n] R_landed m n
    by (simp add: ball_landed_fields)
qed


section \<open>Newton iteration and the time loop\<close>





















end
